theory Spec2Isabelle
  imports Complex_Main "HOL-Library.AList"
begin

section \<open>The streaming session: connect, backoff, teardown\<close>

text \<open>
  The service keeps one MQTT session to the broker during trading hours. Two classes of the
  repository own that session: \<open>MqttService\<close> (mqtt.service.ts in the revision with the
  cron triggers and the health check, kept in the sources as unnamed/part_000) and
  \<open>MqttConnectionManager\<close> (src/mqtt/services/mqtt-connection.service.ts). Both are
  embedded below as records of
  their mutable fields together with what their calls leave behind in the Node runtime:
  the timeouts that are still pending, the sessions that are open, the alerts handed to the
  alert service. A timeout or a client object is identified by a handle; \<open>fresh\<close> is the
  next unused one.

  Numbers are JavaScript doubles in the source. The backoff delay only ever holds the
  integers \<open>5000 * 2 ^ k\<close> and \<open>900000\<close>; doubling such an integer, comparing it
  with the maximum and adding an integer to it are exact in doubles, so the delay is an
  \<open>int\<close>. A value drawn from \<open>Math.random()\<close>, the jitter and the jittered delay are
  doubles that need not be integers. A double is a real of the set \<open>binary64\<close>, and an
  operation of the source on them is the exact operation followed by the rounding \<open>fl\<close>
  of the runtime, which every function below that computes with them takes as its first
  argument. What is known of \<open>fl\<close> is that it rounds to nearest: \<open>rounds fl x\<close> says
  that \<open>fl x\<close> is a double as near to \<open>x\<close> as any (whichever way a tie goes).
\<close>

definition binary64 :: "real set" where
  \<comment> \<open>the finite doubles: \<open>m * 2 ^ e\<close> with \<open>\<bar>m\<bar> < 2 ^ 53\<close> and \<open>- 1074 \<le> e \<le> 971\<close>\<close>
  "binary64 =
     {real_of_int m * 2 ^ a / 2 ^ b | m a b. \<bar>m\<bar> < 2 ^ 53 \<and> a \<le> 971 \<and> b \<le> 1074}"

definition nearest :: "real \<Rightarrow> real \<Rightarrow> bool" where
  "nearest x y \<longleftrightarrow> y \<in> binary64 \<and> (\<forall>z \<in> binary64. \<bar>y - x\<bar> \<le> \<bar>z - x\<bar>)"

definition rounds :: "(real \<Rightarrow> real) \<Rightarrow> real \<Rightarrow> bool" where
  "rounds fl x \<longleftrightarrow> nearest x (fl x)"

type_synonym handle = nat

definition clearTimeout :: "handle \<Rightarrow> (handle \<times> real) list \<Rightarrow> (handle \<times> real) list" where
  \<comment> \<open>cancelling a timeout that already fired or was cancelled does nothing\<close>
  "clearTimeout h ts = [t \<leftarrow> ts. fst t \<noteq> h]"

subsection \<open>MqttService.scheduleReconnect (unnamed/part_000, lines 100 to 109)\<close>

record mqttService =
  client :: "handle option"
  lastMessageTime :: int
  healthInterval :: "handle option"
  reconnectTimer :: "handle option"
  reconnectDelay :: int
  timers :: "(handle \<times> real) list"
  fresh :: handle

definition service_half :: "(real \<Rightarrow> real) \<Rightarrow> mqttService \<Rightarrow> real" where
  \<comment> \<open>\<open>this.reconnectDelay / 2\<close>\<close>
  "service_half fl s = fl (real_of_int (mqttService.reconnectDelay s) / 2)"

definition service_jitter :: "(real \<Rightarrow> real) \<Rightarrow> real \<Rightarrow> mqttService \<Rightarrow> int" where
  \<comment> \<open>\<open>Math.floor(Math.random() * (this.reconnectDelay / 2))\<close>\<close>
  "service_jitter fl rnd s = \<lfloor>fl (rnd * service_half fl s)\<rfloor>"

definition service_delay :: "(real \<Rightarrow> real) \<Rightarrow> real \<Rightarrow> mqttService \<Rightarrow> real" where
  \<comment> \<open>\<open>this.reconnectDelay + jitter\<close>, a sum of two integers\<close>
  "service_delay fl rnd s =
     real_of_int (mqttService.reconnectDelay s + service_jitter fl rnd s)"

definition service_initial :: "int \<Rightarrow> mqttService" where
  \<comment> \<open>the field initialisers; \<open>now\<close> is \<open>Date.now()\<close> at construction\<close>
  "service_initial now = \<lparr>mqttService.client = None, lastMessageTime = now,
     healthInterval = None, mqttService.reconnectTimer = None,
     mqttService.reconnectDelay = 5000, mqttService.timers = [], mqttService.fresh = 0\<rparr>"

definition service_scheduleReconnect ::
  "(real \<Rightarrow> real) \<Rightarrow> real \<Rightarrow> mqttService \<Rightarrow> mqttService" where
  "service_scheduleReconnect fl rnd s =
     (let pending = (case mqttService.reconnectTimer s of
                       None \<Rightarrow> mqttService.timers s
                     | Some t \<Rightarrow> clearTimeout t (mqttService.timers s))
      in s\<lparr>mqttService.timers := pending @ [(mqttService.fresh s, service_delay fl rnd s)],
            mqttService.reconnectTimer := Some (mqttService.fresh s),
            mqttService.fresh := Suc (mqttService.fresh s),
            mqttService.reconnectDelay :=
              min (mqttService.reconnectDelay s * 2) (15 * 60 * 1000)\<rparr>)"

subsection \<open>MqttConnectionManager (mqtt-connection.service.ts)\<close>

record manager =
  client :: "handle option"
  isConnecting :: bool
  reconnectTimer :: "handle option"
  reconnectDelay :: int
  timers :: "(handle \<times> real) list"
  sessions :: "(handle \<times> string) list"
  alerts :: "string list"
  fresh :: handle

definition reconnectMax :: int where
  "reconnectMax = 15 * 60 * 1000"

definition initial :: manager where
  \<comment> \<open>the field initialisers of the class\<close>
  "initial = \<lparr>client = None, isConnecting = False, reconnectTimer = None,
              reconnectDelay = 5000, timers = [], sessions = [], alerts = [], fresh = 0\<rparr>"

definition alert_send :: "string \<Rightarrow> manager \<Rightarrow> manager" where
  \<comment> \<open>\<open>await this.alertService.send(subject, body, gap)\<close>: the subject is recorded\<close>
  "alert_send subject s = s\<lparr>alerts := alerts s @ [subject]\<rparr>"

definition half :: "(real \<Rightarrow> real) \<Rightarrow> manager \<Rightarrow> real" where
  \<comment> \<open>\<open>this.reconnectDelay / 2\<close>\<close>
  "half fl s = fl (real_of_int (reconnectDelay s) / 2)"

definition jitter :: "(real \<Rightarrow> real) \<Rightarrow> real \<Rightarrow> manager \<Rightarrow> real" where
  \<comment> \<open>\<open>Math.random() * (this.reconnectDelay / 2)\<close>\<close>
  "jitter fl rnd s = fl (rnd * half fl s)"

definition delay :: "(real \<Rightarrow> real) \<Rightarrow> real \<Rightarrow> manager \<Rightarrow> real" where
  \<comment> \<open>\<open>this.reconnectDelay + jitter\<close>\<close>
  "delay fl rnd s = fl (real_of_int (reconnectDelay s) + jitter fl rnd s)"

definition scheduleReconnect ::
  "(real \<Rightarrow> real) \<Rightarrow> bool \<Rightarrow> real \<Rightarrow> manager \<Rightarrow> manager" where
  \<comment> \<open>\<open>trading\<close> is what \<open>isTradingTime()\<close> returns at this call, \<open>rnd\<close> what
      \<open>Math.random()\<close> returns\<close>
  "scheduleReconnect fl trading rnd s =
     (if \<not> trading then s
      else
        let pending = (case reconnectTimer s of
                         None \<Rightarrow> timers s
                       | Some t \<Rightarrow> clearTimeout t (timers s))
        in s\<lparr>timers := pending @ [(fresh s, delay fl rnd s)],
              reconnectTimer := Some (fresh s),
              fresh := Suc (fresh s),
              reconnectDelay := min (reconnectDelay s * 2) reconnectMax\<rparr>)"

definition end_session :: "manager \<Rightarrow> manager" where
  \<comment> \<open>\<open>end()\<close>; the timer field keeps its (cancelled) handle\<close>
  "end_session s =
     (let pending = (case reconnectTimer s of
                       None \<Rightarrow> timers s
                     | Some t \<Rightarrow> clearTimeout t (timers s));
          opened = (case client s of
                      None \<Rightarrow> sessions s
                    | Some c \<Rightarrow> [x \<leftarrow> sessions s. fst x \<noteq> c])
      in s\<lparr>timers := pending, sessions := opened, client := None, reconnectDelay := 5000\<rparr>)"

text \<open>
  One call of \<open>connect()\<close> meets the outside world at fixed places; an \<open>attempt\<close> says
  what it finds there. \<open>connect()\<close> is \<open>async\<close>: it runs up to its first
  \<open>await\<close> on \<open>getValidToken()\<close>, and the rest runs when the token arrives, other
  callbacks in between. \<open>connect_enter\<close> is the part before that await,
  \<open>connect_resume\<close> the part after it, and \<open>connect\<close> a call that is not interleaved
  with anything.
\<close>

record attempt =
  tradingAtEntry :: bool
    \<comment> \<open>\<open>isTradingTime()\<close> at the top of \<open>connect()\<close>\<close>
  validToken :: "string + string \<times> string"
    \<comment> \<open>\<open>getValidToken()\<close>: rejected with an error, or token and investorId\<close>
  BROKER_URL :: "string option"
  TOPIC :: "string option"
  connectError :: "string option"
    \<comment> \<open>an exception while building the options or in \<open>connect(brokerUrl, options)\<close>\<close>
  registerError :: "string option"
    \<comment> \<open>an exception in \<open>registerMqttEvents\<close>\<close>
  tradingAtRetry :: bool
    \<comment> \<open>\<open>isTradingTime()\<close> inside the \<open>scheduleReconnect()\<close> of the catch block\<close>
  mathRandom :: real

datatype 'a progress = Returned 'a | Awaiting 'a

definition connect_enter :: "bool \<Rightarrow> manager \<Rightarrow> manager progress" where
  "connect_enter trading s =
     (if \<not> trading then Returned (alert_send ''MQTT Connect Skipped'' s)
      else if isConnecting s then Returned s
      else Awaiting (s\<lparr>isConnecting := True\<rparr>))"

definition connect_failed :: "(real \<Rightarrow> real) \<Rightarrow> attempt \<Rightarrow> manager \<Rightarrow> manager" where
  \<comment> \<open>the catch block\<close>
  "connect_failed fl a s =
     scheduleReconnect fl (tradingAtRetry a) (mathRandom a) (alert_send ''MQTT Connection Error'' s)"

definition connect_resume :: "(real \<Rightarrow> real) \<Rightarrow> attempt \<Rightarrow> manager \<Rightarrow> manager" where
  "connect_resume fl a s =
     (let s' =
        (case validToken a of
           Inl err \<Rightarrow> connect_failed fl a s
         | Inr cred \<Rightarrow>
             (case BROKER_URL a of
                None \<Rightarrow> alert_send ''Missing Broker Url'' s
              | Some brokerUrl \<Rightarrow>
                  if brokerUrl = [] then alert_send ''Missing Broker Url'' s
                  else
                    (case connectError a of
                       Some err \<Rightarrow> connect_failed fl a s
                     | None \<Rightarrow>
                         let s1 = s\<lparr>client := Some (fresh s),
                                     sessions := sessions s @ [(fresh s, brokerUrl)],
                                     fresh := Suc (fresh s)\<rparr>
                         in (case registerError a of
                               Some err \<Rightarrow> connect_failed fl a s1
                             | None \<Rightarrow> s1\<lparr>reconnectDelay := 5000\<rparr>))))
      in s'\<lparr>isConnecting := False\<rparr>)"

definition connect :: "(real \<Rightarrow> real) \<Rightarrow> attempt \<Rightarrow> manager \<Rightarrow> manager" where
  "connect fl a s =
     (case connect_enter (tradingAtEntry a) s of
        Returned s' \<Rightarrow> s'
      | Awaiting s' \<Rightarrow> connect_resume fl a s')"

text \<open>
  What happens to a manager over time: \<open>connect()\<close> is called (by a cron trigger, or
  by the reconnect timeout when it fires), the transport reports close or error and the
  registered callback calls \<open>scheduleReconnect()\<close>, or \<open>end()\<close> is called.
\<close>

datatype event =
    Connect attempt
  | TimerFires handle attempt
  | TransportLost bool real
  | End

fun step :: "(real \<Rightarrow> real) \<Rightarrow> event \<Rightarrow> manager \<Rightarrow> manager" where
  "step fl (Connect a) s = connect fl a s"
| "step fl (TimerFires h a) s =
     (if h \<in> fst ` set (timers s) then connect fl a (s\<lparr>timers := clearTimeout h (timers s)\<rparr>)
      else s)"
| "step fl (TransportLost trading rnd) s = scheduleReconnect fl trading rnd s"
| "step fl End s = end_session s"

fun run :: "(real \<Rightarrow> real) \<Rightarrow> event list \<Rightarrow> manager \<Rightarrow> manager" where
  "run fl [] s = s"
| "run fl (e # es) s = run fl es (step fl e s)"

fun attempts :: "(real \<Rightarrow> real) \<Rightarrow> attempt list \<Rightarrow> manager \<Rightarrow> manager" where
  "attempts fl [] s = s"
| "attempts fl (a # as) s = attempts fl as (connect fl a s)"

text \<open>How one attempt ends, for a manager that is not already connecting.\<close>

datatype verdict = Skipped | Unconfigured | Failed | Opened

definition verdict_of :: "attempt \<Rightarrow> verdict" where
  "verdict_of a =
     (if \<not> tradingAtEntry a then Skipped
      else case validToken a of
             Inl err \<Rightarrow> Failed
           | Inr cred \<Rightarrow>
               (case BROKER_URL a of
                  None \<Rightarrow> Unconfigured
                | Some brokerUrl \<Rightarrow>
                    if brokerUrl = [] then Unconfigured
                    else if connectError a = None \<and> registerError a = None then Opened
                    else Failed))"

definition outside :: "event \<Rightarrow> bool" where
  \<comment> \<open>every reading of \<open>isTradingTime()\<close> during the event is false\<close>
  "outside e =
     (case e of
        Connect a \<Rightarrow> \<not> tradingAtEntry a
      | TimerFires h a \<Rightarrow> \<not> tradingAtEntry a
      | TransportLost trading rnd \<Rightarrow> \<not> trading
      | End \<Rightarrow> True)"

definition owned :: "manager \<Rightarrow> bool" where
  \<comment> \<open>the only timeout that can be pending is the one the timer field holds\<close>
  "owned s = (case reconnectTimer s of
                None \<Rightarrow> timers s = []
              | Some t \<Rightarrow> clearTimeout t (timers s) = [])"

section \<open>Quotes: normalisation and change detection\<close>

text \<open>
  A quote arrives as the result of \<open>JSON.parse\<close>: an object whose fields hold strings,
  numbers, booleans or null, or are missing. Objects are association lists in the order of
  their keys; reading a missing field gives \<open>undefined\<close>. The normalised record can also
  hold a \<open>Date\<close>, whose time value is a number of milliseconds since the epoch or, for
  an invalid date, nothing. Numbers are reals: exact arithmetic stands for doubles, and
  \<open>NaN\<close> is the absence of a number. Fields that hold arrays or nested objects do not
  occur in a quote and are left out.
\<close>

datatype jsval =
    JUndefined
  | JNull
  | JBool bool
  | JNumber real
  | JString string
  | JDate "int option"

type_synonym obj = "(string \<times> jsval) list"

definition field :: "obj \<Rightarrow> string \<Rightarrow> jsval" where
  \<comment> \<open>\<open>ob[k]\<close>\<close>
  "field ob k = (case map_of ob k of None \<Rightarrow> JUndefined | Some v \<Rightarrow> v)"

fun truthy :: "jsval \<Rightarrow> bool" where
  "truthy JUndefined = False"
| "truthy JNull = False"
| "truthy (JBool b) = b"
| "truthy (JNumber x) = (x \<noteq> 0)"
| "truthy (JString s) = (s \<noteq> [])"
| "truthy (JDate d) = True"

subsection \<open>What the JavaScript runtime contributes\<close>

text \<open>
  Three things are decided by the runtime and not by the repository: how a string converts
  to a number, which strings the \<open>Date\<close> constructor can read, and the offset of local
  time from UTC (taken as fixed, as it is for Asia/Ho Chi Minh and for UTC). They are the
  fields of a \<open>host\<close>, and every general statement below holds for every host. The date
  arithmetic follows the abstract operations of ECMAScript.
\<close>

record host =
  StringToNumber :: "string \<Rightarrow> real option"
  DateParse :: "string \<Rightarrow> int option"
  LocalTZA :: int

fun ToNumber :: "host \<Rightarrow> jsval \<Rightarrow> real option" where
  "ToNumber h JUndefined = None"
| "ToNumber h JNull = Some 0"
| "ToNumber h (JBool b) = Some (if b then 1 else 0)"
| "ToNumber h (JNumber x) = Some x"
| "ToNumber h (JString s) = StringToNumber h s"
| "ToNumber h (JDate d) = map_option real_of_int d"

definition msPerSecond :: int where "msPerSecond = 1000"
definition msPerMinute :: int where "msPerMinute = 60000"
definition msPerHour :: int where "msPerHour = 3600000"
definition msPerDay :: int where "msPerDay = 86400000"

definition Day :: "int \<Rightarrow> int" where
  "Day t = t div msPerDay"

definition HourFromTime :: "int \<Rightarrow> int" where
  "HourFromTime t = (t div msPerHour) mod 24"

definition MinFromTime :: "int \<Rightarrow> int" where
  "MinFromTime t = (t div msPerMinute) mod 60"

definition SecFromTime :: "int \<Rightarrow> int" where
  "SecFromTime t = (t div msPerSecond) mod 60"

definition msFromTime :: "int \<Rightarrow> int" where
  "msFromTime t = t mod msPerSecond"

definition MakeTime :: "int \<Rightarrow> int \<Rightarrow> int \<Rightarrow> int \<Rightarrow> int" where
  "MakeTime hour m sec ms = hour * msPerHour + m * msPerMinute + sec * msPerSecond + ms"

definition MakeDate :: "int \<Rightarrow> int \<Rightarrow> int" where
  "MakeDate day time = day * msPerDay + time"

definition TimeClip :: "int \<Rightarrow> int option" where
  "TimeClip t = (if \<bar>t\<bar> > 8640000000000000 then None else Some t)"

definition LocalTime :: "host \<Rightarrow> int \<Rightarrow> int" where
  "LocalTime h t = t + LocalTZA h"

definition UTC :: "host \<Rightarrow> int \<Rightarrow> int" where
  "UTC h t = t - LocalTZA h"

fun new_Date :: "host \<Rightarrow> jsval \<Rightarrow> int option" where
  "new_Date h (JString s) = Option.bind (DateParse h s) TimeClip"
| "new_Date h (JDate d) = d"
| "new_Date h v =
     (case ToNumber h v of
        None \<Rightarrow> None
      | Some x \<Rightarrow>
          if \<bar>x\<bar> > 8640000000000000 then None
          else Some (if 0 \<le> x then \<lfloor>x\<rfloor> else \<lceil>x\<rceil>))"

definition getHours :: "host \<Rightarrow> int option \<Rightarrow> int option" where
  "getHours h d = map_option (\<lambda>t. HourFromTime (LocalTime h t)) d"

definition setHours :: "host \<Rightarrow> int option \<Rightarrow> int option \<Rightarrow> int option" where
  \<comment> \<open>\<open>d.setHours(hour)\<close>; an hour that is \<open>NaN\<close> invalidates the date\<close>
  "setHours h hour d =
     (case d of
        None \<Rightarrow> None
      | Some t \<Rightarrow>
          (case hour of
             None \<Rightarrow> None
           | Some hr \<Rightarrow>
               let tl = LocalTime h t
               in TimeClip (UTC h (MakeDate (Day tl)
                    (MakeTime hr (MinFromTime tl) (SecFromTime tl) (msFromTime tl))))))"

subsection \<open>QuoteService.mapQuoteToInternalFormat (src/quote/services/quote.service.ts)\<close>

text \<open>
  \<open>fieldMap\<close> and \<open>marketMap\<close> come from src/quote/map/quote.map.ts, which the sources
  do not hold; both are parameters. \<open>fieldMap\<close> lists, in order, each normalised key
  with the raw key it is read from (or none). \<open>marketMap\<close> is the lookup
  \<open>marketMap[value]\<close>, \<open>undefined\<close> where the table has no entry. \<open>mapped\<close> is the
  value one pass of the loop assigns to \<open>result[mainKey]\<close>.
\<close>

type_synonym fieldMap = "(string \<times> string option) list"

definition mapped :: "host \<Rightarrow> (jsval \<Rightarrow> jsval) \<Rightarrow> obj \<Rightarrow> string \<Rightarrow> string option \<Rightarrow> jsval" where
  "mapped h marketMap quote mainKey dnseKey =
     (case dnseKey of
        None \<Rightarrow> JNull
      | Some k \<Rightarrow>
          if k = [] then JNull
          else
            let val = field quote k in
            if val = JUndefined \<or> val = JNull then JNull
            else if mainKey = ''TradingDate'' then
              (let vnDate = new_Date h val
               in JDate (setHours h (map_option (\<lambda>x. x + 7) (getHours h vnDate)) vnDate))
            else if mainKey = ''MarketID'' then
              (let marketEnum = marketMap val
               in if marketEnum = JUndefined \<or> marketEnum = JNull then val else marketEnum)
            else
              (case ToNumber h val of None \<Rightarrow> val | Some num \<Rightarrow> JNumber num))"

definition mapQuoteToInternalFormat :: "host \<Rightarrow> (jsval \<Rightarrow> jsval) \<Rightarrow> fieldMap \<Rightarrow> obj \<Rightarrow> obj" where
  "mapQuoteToInternalFormat h marketMap fm quote =
     fold (\<lambda>(mainKey, dnseKey) result.
             AList.update mainKey (mapped h marketMap quote mainKey dnseKey) result) fm []"

subsection \<open>MqttService.normalizeQuote (unnamed/part_002, lines 92 to 112)\<close>

definition toNumber :: "host \<Rightarrow> jsval \<Rightarrow> jsval" where
  "toNumber h val = (case ToNumber h val of None \<Rightarrow> JUndefined | Some n \<Rightarrow> JNumber n)"

definition coerced :: "string list" where
  "coerced = [''matchPrice'', ''matchQuantity'', ''totalVolumeTraded'', ''listedShares'',
     ''referencePrice'', ''openPrice'', ''closePrice'', ''averagePrice'', ''highLimitPrice'',
     ''lowLimitPrice'', ''changedValue'', ''changedRatio'']"

definition normalizeQuote :: "host \<Rightarrow> obj \<Rightarrow> obj" where
  \<comment> \<open>the spread of \<open>raw\<close> followed by the twelve coerced fields, each read from \<open>raw\<close>\<close>
  "normalizeQuote h raw =
     fold (\<lambda>k cleaned. AList.update k (toNumber h (field raw k)) cleaned) coerced raw"

subsection \<open>QuoteService.saveQuoteIfChanged, in its two revisions\<close>

text \<open>
  The service holds the change-detection cache (\<open>QuoteDnseCacheService\<close>, a map from
  symbol to the last raw quote) and talks to two Mongo collections. The calls it issues
  are recorded in order; what the database answers is given by \<open>replies\<close>. An awaited
  promise that is rejected throws, so a rejection is an error of the call.

  The sources hold the class twice. \<open>saveQuoteIfChanged\<close> is the method of
  src/quote/services/quote.service.ts (lines 58 to 91). \<open>saveQuoteIfChanged_healing\<close>
  is the method of the revision stored after the module declaration in
  src/mqtt/mqtt.module.ts (lines 69 to 118 of that file): it maps the quote first, asks
  the normalised collection whether the record exists when nothing changed, and writes
  the cache after the two upserts. \<open>mapQuoteToInternalFormat\<close> is the same in both.
\<close>

datatype error = SymbolRequired | StockCodeMissing | Rejected

datatype db_call =
    UpdateDnse jsval obj
  | UpdateMain jsval obj
  | ExistsMain jsval

record replies =
  dnseUpdated :: bool
  mainUpdated :: bool
  mainExists :: "bool option"

record quotes =
  cache :: "jsval \<Rightarrow> obj option"
  issued :: "db_call list"

definition isChanged :: "obj option \<Rightarrow> obj \<Rightarrow> bool" where
  "isChanged cached data =
     (case cached of
        None \<Rightarrow> True
      | Some c \<Rightarrow>
          field c ''matchPrice'' \<noteq> field data ''matchPrice'' \<or>
          field c ''totalVolumeTraded'' \<noteq> field data ''totalVolumeTraded'' \<or>
          field c ''matchQuantity'' \<noteq> field data ''matchQuantity'' \<or>
          field c ''changedValue'' \<noteq> field data ''changedValue'' \<or>
          field c ''changedRatio'' \<noteq> field data ''changedRatio'')"

definition upsertBoth :: "replies \<Rightarrow> jsval \<Rightarrow> obj \<Rightarrow> jsval \<Rightarrow> obj \<Rightarrow> quotes \<Rightarrow> bool \<times> quotes" where
  \<comment> \<open>\<open>await Promise.all([updateOne, updateOne])\<close>: both calls are made, and the await
      succeeds when both resolve\<close>
  "upsertBoth r symbol data StockCode mainQuote q =
     (dnseUpdated r \<and> mainUpdated r,
      q\<lparr>issued := issued q @ [UpdateDnse symbol data, UpdateMain StockCode mainQuote]\<rparr>)"

definition saveQuoteIfChanged ::
  "host \<Rightarrow> (jsval \<Rightarrow> jsval) \<Rightarrow> fieldMap \<Rightarrow> replies \<Rightarrow> obj \<Rightarrow> quotes \<Rightarrow> (error + unit) \<times> quotes" where
  "saveQuoteIfChanged h marketMap fm r data q =
     (let symbol = field data ''symbol'' in
      if \<not> truthy symbol then (Inl SymbolRequired, q)
      else
        let cached = cache q symbol in
        if \<not> isChanged cached data then (Inr (), q)
        else
          let mainQuote = mapQuoteToInternalFormat h marketMap fm data;
              StockCode = field mainQuote ''StockCode''
          in if \<not> truthy StockCode then (Inl StockCodeMissing, q)
             else
               (case upsertBoth r symbol data StockCode mainQuote q of
                  (ok, q') \<Rightarrow> if ok then (Inr (), q') else (Inl Rejected, q')))"

definition saveQuoteIfChanged_healing ::
  "host \<Rightarrow> (jsval \<Rightarrow> jsval) \<Rightarrow> fieldMap \<Rightarrow> replies \<Rightarrow> obj \<Rightarrow> quotes \<Rightarrow> (error + unit) \<times> quotes" where
  "saveQuoteIfChanged_healing h marketMap fm r data q =
     (let symbol = field data ''symbol'' in
      if \<not> truthy symbol then (Inl SymbolRequired, q)
      else
        let cached = cache q symbol;
            mainQuote = mapQuoteToInternalFormat h marketMap fm data;
            StockCode = field mainQuote ''StockCode''
        in if \<not> truthy StockCode then (Inl StockCodeMissing, q)
           else
             let isDnseChanged = isChanged cached data;
                 save = (\<lambda>q1. case upsertBoth r symbol data StockCode mainQuote q1 of
                           (ok, q2) \<Rightarrow>
                             if ok then (Inr (), q2\<lparr>cache := (cache q2)(symbol \<mapsto> data)\<rparr>)
                             else (Inl Rejected, q2))
             in if isDnseChanged then save q
                else
                  let q1 = q\<lparr>issued := issued q @ [ExistsMain StockCode]\<rparr>
                  in (case mainExists r of
                        None \<Rightarrow> (Inl Rejected, q1)
                      | Some found \<Rightarrow> if \<not> found then save q1 else (Inr (), q1)))"

section \<open>Concrete inputs\<close>

text \<open>
  A host for running examples: decimal literals with an optional minus sign and fraction
  convert to numbers, timestamps written \<open>YYYY-MM-DDTHH:MM:SSZ\<close> are read as dates, and
  local time is UTC+7. Other spellings that JavaScript accepts are not covered by it; it
  is used on the examples below only.
\<close>

definition digit :: "char \<Rightarrow> nat option" where
  "digit c = (let n = (of_char c :: nat) in if 48 \<le> n \<and> n \<le> 57 then Some (n - 48) else None)"

fun digits :: "string \<Rightarrow> nat option" where
  "digits [] = None"
| "digits cs =
     fold (\<lambda>c acc. case (acc, digit c) of (Some a, Some d) \<Rightarrow> Some (10 * a + d) | _ \<Rightarrow> None)
       cs (Some 0)"

definition decimal :: "string \<Rightarrow> real option" where
  "decimal s =
     (let body = (if s \<noteq> [] \<and> hd s = CHR ''-'' then tl s else s);
          sign = (if s \<noteq> [] \<and> hd s = CHR ''-'' then - 1 else 1 :: real);
          whole = takeWhile (\<lambda>c. c \<noteq> CHR ''.'') body;
          frac = drop (Suc (length whole)) body
      in if s = [] then Some 0
         else if frac = [] then
           (if whole = body then map_option (\<lambda>n. sign * real n) (digits whole) else None)
         else
           (case (digits whole, digits frac) of
              (Some w, Some f) \<Rightarrow> Some (sign * (real w + real f / 10 ^ length frac))
            | _ \<Rightarrow> None))"

definition days_from_civil :: "int \<Rightarrow> int \<Rightarrow> int \<Rightarrow> int" where
  \<comment> \<open>days from 1970-01-01 to a date of the Gregorian calendar\<close>
  "days_from_civil y m d =
     (let y' = (if m \<le> 2 then y - 1 else y);
          era = y' div 400;
          yoe = y' - era * 400;
          doy = (153 * (if m > 2 then m - 3 else m + 9) + 2) div 5 + d - 1;
          doe = yoe * 365 + yoe div 4 - yoe div 100 + doy
      in era * 146097 + doe - 719468)"

definition iso_instant :: "string \<Rightarrow> int option" where
  "iso_instant s =
     (if length s = 20 \<and> s ! 4 = CHR ''-'' \<and> s ! 7 = CHR ''-'' \<and> s ! 10 = CHR ''T'' \<and>
         s ! 13 = CHR '':'' \<and> s ! 16 = CHR '':'' \<and> s ! 19 = CHR ''Z''
      then
        (case (digits (take 4 s), digits (take 2 (drop 5 s)), digits (take 2 (drop 8 s)),
               digits (take 2 (drop 11 s)), digits (take 2 (drop 14 s)),
               digits (take 2 (drop 17 s))) of
           (Some y, Some mo, Some d, Some hh, Some mi, Some ss) \<Rightarrow>
             if 1 \<le> mo \<and> mo \<le> 12 \<and> 1 \<le> d \<and> d \<le> 31 \<and> hh \<le> 23 \<and> mi \<le> 59 \<and> ss \<le> 59
             then Some (MakeDate (days_from_civil (int y) (int mo) (int d))
                          (MakeTime (int hh) (int mi) (int ss) 0))
             else None
         | _ \<Rightarrow> None)
      else None)"

definition node :: host where
  "node = \<lparr>StringToNumber = decimal, DateParse = iso_instant, LocalTZA = 7 * msPerHour\<rparr>"

definition no_markets :: "jsval \<Rightarrow> jsval" where
  "no_markets v = JUndefined"

definition sample_fieldMap :: fieldMap where
  "sample_fieldMap = [(''StockCode'', Some ''symbol''), (''TradingDate'', Some ''tradingDate''),
     (''MatchPrice'', Some ''matchPrice''), (''CeilingPrice'', None)]"

definition sample_quote :: obj where
  "sample_quote = [(''symbol'', JString ''FPT''),
     (''tradingDate'', JString ''2024-01-01T00:00:00Z''),
     (''matchPrice'', JNumber 100), (''totalVolumeTraded'', JNumber 5000),
     (''matchQuantity'', JNumber 10), (''changedValue'', JNumber 1),
     (''changedRatio'', JNumber 1)]"


definition garbled_quote :: obj where
  "garbled_quote = [(''symbol'', JString ''FPT''), (''tradingDate'', JString ''abc''),
     (''matchPrice'', JString ''abc'')]"

definition all_resolve :: replies where
  \<comment> \<open>both upserts succeed; the normalised collection has no record for the stock code\<close>
  "all_resolve = \<lparr>dnseUpdated = True, mainUpdated = True, mainExists = Some False\<rparr>"

definition no_quotes :: quotes where
  "no_quotes = \<lparr>cache = Map.empty, issued = []\<rparr>"

definition seen :: "obj \<Rightarrow> quotes" where
  \<comment> \<open>the cache holds \<open>data\<close> as the last snapshot of its symbol\<close>
  "seen data = \<lparr>cache = [field data ''symbol'' \<mapsto> data], issued = []\<rparr>"

definition seven_tenths :: real where
  \<comment> \<open>the double nearest to 0.7\<close>
  "seven_tenths = 6305039478318694 / 2 ^ 53"

definition round_example :: "real \<Rightarrow> real" where
  \<comment> \<open>a rounding for the examples: the one product among them that is not a double
      goes to its nearest double, and doubles stay as they are\<close>
  "round_example x = (if x = seven_tenths * 2500 then 1750 else x)"

definition token_rejected :: attempt where
  "token_rejected = \<lparr>tradingAtEntry = True, validToken = Inl ''401'',
     BROKER_URL = Some ''wss://broker'', TOPIC = Some ''quotes'', connectError = None,
     registerError = None, tradingAtRetry = True, mathRandom = 1 / 2\<rparr>"

definition session_opens :: attempt where
  "session_opens = \<lparr>tradingAtEntry = True, validToken = Inr (''jwt'', ''investor''),
     BROKER_URL = Some ''wss://broker'', TOPIC = Some ''quotes'', connectError = None,
     registerError = None, tradingAtRetry = True, mathRandom = 1 / 2\<rparr>"

definition after_hours :: attempt where
  "after_hours = session_opens\<lparr>tradingAtEntry := False, tradingAtRetry := False\<rparr>"

section \<open>Lemmas about the connection manager\<close>

lemma connect_enter_sets_guard: "connect_enter t s = Awaiting s' \<Longrightarrow> isConnecting s'"
  by (auto simp: connect_enter_def split: if_splits)

lemma connect_resume_clears_guard: "\<not> isConnecting (connect_resume fl a s)"
  by (simp add: connect_resume_def Let_def)

lemma scheduleReconnect_delay:
  "reconnectDelay (scheduleReconnect fl True rnd s) = min (reconnectDelay s * 2) reconnectMax"
  by (simp add: scheduleReconnect_def Let_def)

lemma scheduleReconnect_isConnecting [simp]:
  "isConnecting (scheduleReconnect fl t rnd s) = isConnecting s"
  by (simp add: scheduleReconnect_def Let_def)

lemma connect_failed_delay:
  "reconnectDelay (connect_failed fl a s) =
     (if tradingAtRetry a then min (reconnectDelay s * 2) reconnectMax else reconnectDelay s)"
  by (simp add: connect_failed_def scheduleReconnect_def alert_send_def Let_def)

lemma connect_delay:
  "\<not> isConnecting s \<Longrightarrow>
   reconnectDelay (connect fl a s) =
     (case verdict_of a of
        Skipped \<Rightarrow> reconnectDelay s
      | Unconfigured \<Rightarrow> reconnectDelay s
      | Failed \<Rightarrow> if tradingAtRetry a then min (reconnectDelay s * 2) reconnectMax
                  else reconnectDelay s
      | Opened \<Rightarrow> 5000)"
  by (auto simp: connect_def connect_enter_def connect_resume_def verdict_of_def
        connect_failed_delay alert_send_def Let_def
      split: sum.splits option.splits)

lemma connect_not_connecting: "\<not> isConnecting s \<Longrightarrow> \<not> isConnecting (connect fl a s)"
  by (auto simp: connect_def connect_enter_def connect_resume_clears_guard alert_send_def)

lemma attempts_failed_delay:
  "\<not> isConnecting s \<Longrightarrow> 0 \<le> reconnectDelay s \<Longrightarrow> reconnectDelay s \<le> reconnectMax \<Longrightarrow>
   \<forall>a \<in> set as. verdict_of a = Failed \<and> tradingAtRetry a \<Longrightarrow>
   reconnectDelay (attempts fl as s) = min (reconnectDelay s * 2 ^ length as) reconnectMax"
proof (induction as arbitrary: s)
  case Nil
  then show ?case by simp
next
  case (Cons a as)
  let ?s = "connect fl a s"
  have d: "reconnectDelay ?s = min (reconnectDelay s * 2) reconnectMax"
    using Cons.prems by (simp add: connect_delay)
  have nc: "\<not> isConnecting ?s"
    using Cons.prems by (simp add: connect_not_connecting)
  have "reconnectDelay (attempts fl as ?s) = min (reconnectDelay ?s * 2 ^ length as) reconnectMax"
    using Cons.prems nc d by (intro Cons.IH) (auto simp: reconnectMax_def)
  moreover have "min (min (reconnectDelay s * 2) reconnectMax * 2 ^ length as) reconnectMax
      = min (reconnectDelay s * 2 ^ length (a # as)) reconnectMax"
  proof -
    have p: "(1::int) \<le> 2 ^ length as" by simp
    have m: "0 \<le> reconnectMax" by (simp add: reconnectMax_def)
    show ?thesis
    proof (cases "reconnectDelay s * 2 \<le> reconnectMax")
      case True
      then show ?thesis by (simp add: mult.assoc)
    next
      case False
      then have big: "reconnectMax < reconnectDelay s * 2" by simp
      have "reconnectMax * 1 \<le> reconnectMax * 2 ^ length as"
        using p m by (intro mult_left_mono) auto
      moreover have "reconnectDelay s * 2 * 1 \<le> reconnectDelay s * 2 * 2 ^ length as"
        using p Cons.prems(2) by (intro mult_left_mono) auto
      ultimately show ?thesis using big by (simp add: mult.assoc)
    qed
  qed
  ultimately show ?case using d by simp
qed

lemma clearTimeout_idem [simp]: "clearTimeout h (clearTimeout h ts) = clearTimeout h ts"
  by (simp add: clearTimeout_def)

lemma clearTimeout_Nil [simp]: "clearTimeout h [] = []"
  by (simp add: clearTimeout_def)

lemma connect_delay_bounds:
  "5000 \<le> reconnectDelay s \<Longrightarrow> reconnectDelay s \<le> reconnectMax \<Longrightarrow>
   5000 \<le> reconnectDelay (connect fl a s) \<and> reconnectDelay (connect fl a s) \<le> reconnectMax"
  by (auto simp: connect_def connect_enter_def connect_resume_def connect_failed_delay
        alert_send_def Let_def reconnectMax_def
      split: sum.splits option.splits)

lemma step_delay_bounds:
  assumes "5000 \<le> reconnectDelay s" and "reconnectDelay s \<le> reconnectMax"
  shows "5000 \<le> reconnectDelay (step fl e s) \<and> reconnectDelay (step fl e s) \<le> reconnectMax"
proof (cases e)
  case (Connect a)
  then show ?thesis using assms connect_delay_bounds [where s = s and a = a and fl = fl] by simp
next
  case (TimerFires h a)
  then show ?thesis
    using assms connect_delay_bounds
      [where s = "s\<lparr>timers := clearTimeout h (timers s)\<rparr>" and a = a and fl = fl]
    by simp
next
  case (TransportLost t r)
  then show ?thesis
    using assms by (simp add: scheduleReconnect_def Let_def reconnectMax_def)
next
  case End
  then show ?thesis by (simp add: end_session_def Let_def reconnectMax_def)
qed

lemma run_delay_bounds:
  "5000 \<le> reconnectDelay s \<Longrightarrow> reconnectDelay s \<le> reconnectMax \<Longrightarrow>
   5000 \<le> reconnectDelay (run fl es s) \<and> reconnectDelay (run fl es s) \<le> reconnectMax"
proof (induction es arbitrary: s)
  case Nil
  then show ?case by simp
next
  case (Cons e es)
  then show ?case using step_delay_bounds [where s = s and e = e and fl = fl] by simp
qed

lemma connect_outside:
  "\<not> tradingAtEntry a \<Longrightarrow> connect fl a s = alert_send ''MQTT Connect Skipped'' s"
  by (simp add: connect_def connect_enter_def)

lemma step_outside:
  "outside e \<Longrightarrow>
   set (timers (step fl e s)) \<subseteq> set (timers s) \<and> set (sessions (step fl e s)) \<subseteq> set (sessions s)"
  by (cases e)
     (auto simp: outside_def connect_outside alert_send_def scheduleReconnect_def
        end_session_def clearTimeout_def Let_def split: option.splits)

lemma run_outside:
  "\<forall>e \<in> set es. outside e \<Longrightarrow>
   set (timers (run fl es s)) \<subseteq> set (timers s) \<and> set (sessions (run fl es s)) \<subseteq> set (sessions s)"
proof (induction es arbitrary: s)
  case Nil
  then show ?case by simp
next
  case (Cons e es)
  have "outside e" and rest: "\<forall>e \<in> set es. outside e" using Cons.prems by simp_all
  from step_outside [OF \<open>outside e\<close>, where s = s and fl = fl] Cons.IH [OF rest, of "step fl e s"]
  show ?case by auto
qed

lemma owned_connect: "owned s \<Longrightarrow> owned (connect fl a s)"
  by (auto simp: owned_def connect_def connect_enter_def connect_resume_def connect_failed_def
        scheduleReconnect_def alert_send_def clearTimeout_def Let_def filter_empty_conv
      split: sum.splits option.splits)

lemma owned_step: "owned s \<Longrightarrow> owned (step fl e s)"
proof (cases e)
  case (Connect a)
  then show "owned s \<Longrightarrow> ?thesis" using owned_connect by simp
next
  case (TimerFires h a)
  assume o: "owned s"
  have "owned (s\<lparr>timers := clearTimeout h (timers s)\<rparr>)"
    using o by (auto simp: owned_def clearTimeout_def filter_empty_conv split: option.splits)
  then show ?thesis using TimerFires o owned_connect by simp
next
  case (TransportLost t r)
  then show "owned s \<Longrightarrow> ?thesis"
    by (auto simp: owned_def scheduleReconnect_def clearTimeout_def Let_def filter_empty_conv
          split: option.splits)
next
  case End
  then show "owned s \<Longrightarrow> ?thesis"
    by (auto simp: owned_def end_session_def clearTimeout_def Let_def split: option.splits)
qed

lemma owned_run: "owned s \<Longrightarrow> owned (run fl es s)"
  by (induction es arbitrary: s) (simp_all add: owned_step)

lemma owned_initial: "owned initial"
  by (simp add: owned_def initial_def)

lemma end_session_timers: "owned s \<Longrightarrow> timers (end_session s) = []"
  by (auto simp: owned_def end_session_def Let_def split: option.splits)

lemma end_session_idem: "end_session (end_session s) = end_session s"
  by (cases "client s"; cases "reconnectTimer s")
     (simp_all add: end_session_def Let_def)

lemma end_session_timer_cancelled:
  "reconnectTimer (end_session s) = Some t \<Longrightarrow> t \<notin> fst ` set (timers (end_session s))"
  by (auto simp: end_session_def Let_def clearTimeout_def split: option.splits)

subsection \<open>Doubles\<close>

lemma binary64I:
  "\<bar>m\<bar> < 2 ^ 53 \<Longrightarrow> a \<le> 971 \<Longrightarrow> b \<le> 1074 \<Longrightarrow> x = real_of_int m * 2 ^ a / 2 ^ b \<Longrightarrow> x \<in> binary64"
  unfolding binary64_def by blast

lemma nearest_exact: "x \<in> binary64 \<Longrightarrow> nearest x y \<Longrightarrow> y = x"
  unfolding nearest_def by fastforce

lemma nearest_self: "x \<in> binary64 \<Longrightarrow> nearest x x"
  unfolding nearest_def by simp

lemma nearest_ge: "c \<in> binary64 \<Longrightarrow> c \<le> x \<Longrightarrow> nearest x y \<Longrightarrow> c \<le> y"
  unfolding nearest_def by fastforce

lemma nearest_le: "c \<in> binary64 \<Longrightarrow> x \<le> c \<Longrightarrow> nearest x y \<Longrightarrow> y \<le> c"
  unfolding nearest_def by fastforce

lemma int_binary64: "\<bar>m\<bar> < 2 ^ 53 \<Longrightarrow> real_of_int m \<in> binary64"
  by (rule binary64I [of m 0 0]) simp_all

lemma half_int_binary64: "\<bar>m\<bar> < 2 ^ 53 \<Longrightarrow> real_of_int m / 2 \<in> binary64"
  by (rule binary64I [of m 0 1]) simp_all

lemma below_one:
  assumes "r \<in> binary64" and "r < 1"
  shows "r \<le> 1 - 1 / 2 ^ 53"
proof -
  obtain m :: int and a b :: nat where m: "\<bar>m\<bar> < 2 ^ 53" and r: "r = real_of_int m * 2 ^ a / 2 ^ b"
    using assms(1) unfolding binary64_def by blast
  show ?thesis
  proof (cases "m \<le> 0")
    case True
    then have "r \<le> 0" unfolding r by (simp add: mult_nonpos_nonneg divide_nonpos_pos)
    then show ?thesis by simp
  next
    case False
    then have mp: "1 \<le> m" by simp
    have lt: "real_of_int m * 2 ^ a < 2 ^ b"
      using assms(2) unfolding r by (simp add: divide_simps)
    then have "real_of_int (m * 2 ^ a) < real_of_int (2 ^ b)" by simp
    then have ilt: "m * 2 ^ a < 2 ^ b" by (simp only: of_int_less_iff)
    have "(2::int) ^ a \<le> m * 2 ^ a" using mp by simp
    then have "(2::int) ^ a < 2 ^ b" using ilt by linarith
    then have ab: "a < b" by simp
    define k where "k = b - a"
    have b: "b = a + k" and kp: "0 < k" using ab by (simp_all add: k_def)
    have rk: "r = real_of_int m / 2 ^ k" unfolding r b by (simp add: power_add)
    have mk: "m < 2 ^ k" using ilt unfolding b by (simp add: power_add)
    show ?thesis
    proof (cases "k \<le> 53")
      case True
      have "m \<le> 2 ^ k - 1" using mk by simp
      then have "real_of_int m \<le> real_of_int (2 ^ k - 1)" by (simp only: of_int_le_iff)
      then have "real_of_int m \<le> 2 ^ k - 1" by simp
      then have "r \<le> (2 ^ k - 1) / 2 ^ k" unfolding rk by (simp add: divide_right_mono)
      also have "\<dots> = 1 - 1 / 2 ^ k" by (simp add: diff_divide_distrib)
      also have "\<dots> \<le> 1 - 1 / 2 ^ 53"
      proof -
        have "(2::real) ^ k \<le> 2 ^ 53" using True by (intro power_increasing) auto
        then have "1 / (2::real) ^ 53 \<le> 1 / 2 ^ k" by (intro divide_left_mono) auto
        then show ?thesis by simp
      qed
      finally show ?thesis .
    next
      case False
      then have "54 \<le> k" by simp
      then have p: "(2::real) ^ 54 \<le> 2 ^ k" by (intro power_increasing) auto
      have "m \<le> 2 ^ 53 - 1" using m by simp
      then have "real_of_int m \<le> real_of_int (2 ^ 53 - 1)" by (simp only: of_int_le_iff)
      then have "real_of_int m \<le> 2 ^ 53 - 1" by simp
      then have "r \<le> (2 ^ 53 - 1) / 2 ^ k" unfolding rk by (simp add: divide_right_mono)
      also have "\<dots> \<le> (2 ^ 53 - 1) / 2 ^ 54" using p by (intro divide_left_mono) auto
      also have "\<dots> \<le> 1 - 1 / 2 ^ 53" by simp
      finally show ?thesis .
    qed
  qed
qed

lemma gap_below:
  fixes D :: int
  assumes "2 \<le> D" and "D < 2 ^ 53"
  shows "\<exists>p \<in> binary64. p < real_of_int D / 2 \<and>
           real_of_int D / 2 - p < real_of_int D / 2 / 2 ^ 52"
proof -
  have "2 \<le> nat D" using assms(1) by simp
  from ex_power_ivl2 [of 2 "nat D", OF _ this]
  obtain n where n: "2 ^ n < nat D" "nat D \<le> 2 ^ (n + 1)" by auto
  have lo: "(2::int) ^ n < D" and hi: "D \<le> 2 ^ (n + 1)"
    using n assms(1) by (simp_all add: nat_less_iff nat_le_iff)
  have "(2::int) ^ n < 2 ^ 53" using lo assms(2) by linarith
  then have n53: "n < 53"
    using power_strict_increasing_iff [of "2::int" n 53] by simp
  define c where "c = 52 - n"
  have nc: "n + c = 52" using n53 by (simp add: c_def)
  define m where "m = D * 2 ^ c - 1"
  define p where "p = real_of_int m / 2 ^ (c + 1)"
  have up: "D * 2 ^ c \<le> 2 ^ 53"
  proof -
    have "D * 2 ^ c \<le> 2 ^ (n + 1) * 2 ^ c" using hi by (simp add: mult_right_mono)
    also have "\<dots> = 2 ^ (n + c + 1)" by (simp add: power_add)
    finally show ?thesis by (simp add: nc)
  qed
  have dn: "(2::int) ^ 52 < D * 2 ^ c"
  proof -
    have "(2::int) ^ n * 2 ^ c < D * 2 ^ c" using lo by (simp add: mult_strict_right_mono)
    then show ?thesis by (simp add: power_add [symmetric] nc)
  qed
  have "0 \<le> m" using dn by (simp add: m_def)
  then have am: "\<bar>m\<bar> < 2 ^ 53" using up by (simp add: m_def)
  have pin: "p \<in> binary64"
    by (rule binary64I [of m 0 "c + 1"]) (use am in \<open>simp_all add: p_def c_def\<close>)
  have pe: "p = real_of_int D / 2 - 1 / 2 ^ (c + 1)"
    by (simp add: p_def m_def diff_divide_distrib)
  have "real_of_int ((2::int) ^ 52) < real_of_int (D * 2 ^ c)"
    using dn by (simp only: of_int_less_iff)
  then have rdn: "(2::real) ^ 52 < real_of_int D * 2 ^ c" by simp
  have "1 / (2::real) ^ (c + 1) < real_of_int D / 2 / 2 ^ 52"
    using rdn by (simp add: divide_simps)
  then have "p < real_of_int D / 2 \<and> real_of_int D / 2 - p < real_of_int D / 2 / 2 ^ 52"
    by (simp add: pe)
  then show ?thesis using pin by blast
qed

lemma product_below_half:
  fixes D :: int
  assumes r: "rnd \<in> binary64" "0 \<le> rnd" "rnd < 1"
    and D: "2 \<le> D" "D < 2 ^ 53"
    and y: "nearest (rnd * (real_of_int D / 2)) y"
  shows "0 \<le> y \<and> y < real_of_int D / 2"
proof -
  let ?h = "real_of_int D / 2"
  let ?x = "rnd * ?h"
  have h: "0 < ?h" using D(1) by simp
  have x0: "0 \<le> ?x" using r(2) h by simp
  have "(0::real) \<in> binary64" using int_binary64 [of 0] by simp
  then have y0: "0 \<le> y" using x0 y by (rule nearest_ge)
  have "rnd \<le> 1 - 1 / 2 ^ 53" using r(1) r(3) by (rule below_one)
  then have "?x \<le> (1 - 1 / 2 ^ 53) * ?h" using h by (simp add: mult_right_mono)
  then have xu: "?x \<le> ?h - ?h / 2 ^ 53" by (simp add: algebra_simps)
  obtain p where p: "p \<in> binary64" "p < ?h" "?h - p < ?h / 2 ^ 52"
    using gap_below [OF D] by blast
  have near: "\<bar>y - ?x\<bar> \<le> \<bar>p - ?x\<bar>" using y p(1) unfolding nearest_def by blast
  have "y < ?h"
  proof (rule ccontr)
    assume "\<not> y < ?h"
    then have yh: "?h \<le> y" by simp
    have hx: "?h / 2 ^ 53 \<le> ?h - ?x" using xu by simp
    have "?h / 2 ^ 52 = 2 * (?h / 2 ^ 53)" by simp
    then have "\<bar>p - ?x\<bar> < ?h - ?x" using p(2) p(3) hx by linarith
    moreover have "?h - ?x \<le> \<bar>y - ?x\<bar>" using yh by linarith
    ultimately show False using near by linarith
  qed
  then show ?thesis using y0 by simp
qed

lemma binary64_grid:
  assumes "z \<in> binary64" and "2 ^ 10 \<le> \<bar>z\<bar>"
  shows "\<exists>n::int. z = real_of_int n / 2 ^ 42"
proof -
  obtain m :: int and a b :: nat where m: "\<bar>m\<bar> < 2 ^ 53" and z: "z = real_of_int m * 2 ^ a / 2 ^ b"
    using assms(1) unfolding binary64_def by blast
  have "\<bar>z\<bar> = real_of_int \<bar>m\<bar> * 2 ^ a / 2 ^ b" unfolding z by (simp add: abs_mult)
  then have "\<bar>z\<bar> * 2 ^ b = real_of_int \<bar>m\<bar> * 2 ^ a" by simp
  moreover have "(2::real) ^ 10 * 2 ^ b \<le> \<bar>z\<bar> * 2 ^ b"
    using assms(2) by (intro mult_right_mono) auto
  ultimately have "(2::real) ^ 10 * 2 ^ b \<le> real_of_int \<bar>m\<bar> * 2 ^ a" by simp
  then have A: "(2::real) ^ 10 * 2 ^ b \<le> real_of_int \<bar>m\<bar> * 2 ^ a" .
  have "real_of_int \<bar>m\<bar> < real_of_int (2 ^ 53)" using m by (simp only: of_int_less_iff)
  then have "real_of_int \<bar>m\<bar> < 2 ^ 53" by simp
  then have B: "real_of_int \<bar>m\<bar> * 2 ^ a < 2 ^ 53 * 2 ^ a"
    by (intro mult_strict_right_mono) auto
  have "(2::real) ^ 10 * 2 ^ b < 2 ^ 53 * 2 ^ a" using A B by (rule le_less_trans)
  then have H: "(2::real) ^ (10 + b) < 2 ^ (53 + a)" by (simp only: power_add)
  have "10 + b < 53 + a" by (rule power_less_imp_less_exp [OF _ H]) simp
  then have ba: "b \<le> a + 42" by simp
  define e where "e = a + 42 - b"
  have "a + 42 = e + b" using ba by (simp add: e_def)
  then have "(2::real) ^ (a + 42) = 2 ^ (e + b)" by (rule arg_cong)
  then have "(2::real) ^ a * 2 ^ 42 = 2 ^ e * 2 ^ b" by (simp only: power_add)
  then have E: "(2::real) ^ a / 2 ^ b = 2 ^ e / 2 ^ 42" by (simp add: divide_simps)
  have "z = real_of_int m * (2 ^ a / 2 ^ b)"
    unfolding z by (simp only: times_divide_eq_right)
  also have "\<dots> = real_of_int m * (2 ^ e / 2 ^ 42)"
    by (simp only: E)
  also have "\<dots> = real_of_int (m * 2 ^ e) / 2 ^ 42"
    by (simp only: of_int_mult of_int_power of_int_numeral times_divide_eq_right)
  finally show ?thesis by blast
qed

lemma rounds_exact: "x \<in> binary64 \<Longrightarrow> rounds fl x \<Longrightarrow> fl x = x"
  unfolding rounds_def by (rule nearest_exact)

subsection \<open>The jitter in doubles\<close>

lemma half_exact:
  "\<bar>reconnectDelay s\<bar> < 2 ^ 53 \<Longrightarrow> rounds fl (real_of_int (reconnectDelay s) / 2) \<Longrightarrow>
   half fl s = real_of_int (reconnectDelay s) / 2"
  unfolding half_def by (rule rounds_exact [OF half_int_binary64])

lemma service_half_exact:
  "\<bar>mqttService.reconnectDelay t\<bar> < 2 ^ 53 \<Longrightarrow>
   rounds fl (real_of_int (mqttService.reconnectDelay t) / 2) \<Longrightarrow>
   service_half fl t = real_of_int (mqttService.reconnectDelay t) / 2"
  unfolding service_half_def by (rule rounds_exact [OF half_int_binary64])

lemma delay_bounds:
  fixes D :: int
  assumes D: "2 \<le> D" "D < 2 ^ 51"
    and j: "0 \<le> j" "j \<le> real_of_int D / 2"
    and y: "nearest (real_of_int D + j) y"
  shows "real_of_int D \<le> y \<and> y \<le> 3 * real_of_int D / 2"
proof -
  have "\<bar>D\<bar> < 2 ^ 53" using D by simp
  then have "real_of_int D \<in> binary64" by (rule int_binary64)
  then have lo: "real_of_int D \<le> y" using _ y by (rule nearest_ge) (use j in simp)
  have "\<bar>3 * D\<bar> < 2 ^ 53" using D by simp
  then have "real_of_int (3 * D) / 2 \<in> binary64" by (rule half_int_binary64)
  then have "3 * real_of_int D / 2 \<in> binary64" by simp
  then have "y \<le> 3 * real_of_int D / 2" using _ y by (rule nearest_le) (use j in simp)
  then show ?thesis using lo by simp
qed

subsection \<open>An example of rounding\<close>

lemma seven_tenths_binary64: "seven_tenths \<in> binary64"
  unfolding seven_tenths_def
  by (rule binary64I [of 6305039478318694 0 53]) simp_all

lemma nearest_1750: "nearest (seven_tenths * 2500) 1750"
  unfolding nearest_def
proof (intro conjI ballI)
  show "(1750::real) \<in> binary64" using int_binary64 [of 1750] by simp
next
  fix z :: real
  assume z: "z \<in> binary64"
  define d :: real where "d = 1000 / 2 ^ 53"
  define g :: real where "g = 1 / 2 ^ 42"
  have x: "seven_tenths * 2500 = 1750 - d" by (simp add: seven_tenths_def d_def)
  have d: "0 < d" "2 * d < g" "g < 1" by (simp_all add: d_def g_def)
  show "\<bar>1750 - seven_tenths * 2500\<bar> \<le> \<bar>z - seven_tenths * 2500\<bar>"
  proof (rule ccontr)
    assume "\<not> \<bar>1750 - seven_tenths * 2500\<bar> \<le> \<bar>z - seven_tenths * 2500\<bar>"
    then have "\<bar>z - (1750 - d)\<bar> < \<bar>1750 - (1750 - d)\<bar>" unfolding x by simp
    then have lo: "1750 - 2 * d < z" and hi: "z < 1750" using d(1) by linarith+
    have "1024 \<le> \<bar>z\<bar>" using lo d by linarith
    then have "2 ^ 10 \<le> \<bar>z\<bar>" by simp
    with z obtain n :: int where n: "z = real_of_int n / 2 ^ 42" using binary64_grid by blast
    then have zg: "z = real_of_int n * g" by (simp add: g_def)
    define N :: int where "N = 1750 * 2 ^ 42"
    have Ng: "real_of_int N * g = 1750" by (simp add: N_def g_def)
    have gp: "0 < g" by (simp add: g_def)
    have "real_of_int n * g < real_of_int N * g" using hi zg Ng by simp
    then have "real_of_int n < real_of_int N" using gp by (simp only: mult_less_cancel_right_pos)
    then have "n \<le> N - 1" by simp
    then have "real_of_int n \<le> real_of_int (N - 1)" by (simp only: of_int_le_iff)
    then have "real_of_int n * g \<le> real_of_int (N - 1) * g"
      using gp by (simp only: mult_le_cancel_right_pos)
    also have "\<dots> = 1750 - g" using Ng by (simp add: algebra_simps)
    finally have "z \<le> 1750 - g" using zg by simp
    then show False using lo d by linarith
  qed
qed

lemma round_example_double: "x \<in> binary64 \<Longrightarrow> rounds round_example x"
proof -
  assume x: "x \<in> binary64"
  show ?thesis
  proof (cases "x = seven_tenths * 2500")
    case True
    then show ?thesis using nearest_1750 by (simp add: rounds_def round_example_def)
  next
    case False
    then show ?thesis using x by (simp add: rounds_def round_example_def nearest_self)
  qed
qed

lemma round_example_product: "rounds round_example (seven_tenths * 2500)"
  using nearest_1750 by (simp add: rounds_def round_example_def)

lemma round_example_id: "x \<noteq> seven_tenths * 2500 \<Longrightarrow> round_example x = x"
  by (simp add: round_example_def)

section \<open>Lemmas about quotes\<close>

lemma mod_split:
  fixes t :: int
  assumes "0 \<le> c"
  shows "(t div b) mod c * b + t mod b = t mod (b * c)"
  using zmod_zmult2_eq [OF assms, of t b] by (simp add: mult.commute)

lemma time_split:
  "HourFromTime t * msPerHour + MinFromTime t * msPerMinute + SecFromTime t * msPerSecond
     + msFromTime t = t mod msPerDay"
proof -
  have s: "(t div 1000) mod 60 * 1000 + t mod 1000 = t mod 60000"
    using mod_split [of 60 t 1000] by simp
  have m: "(t div 60000) mod 60 * 60000 + t mod 60000 = t mod 3600000"
    using mod_split [of 60 t 60000] by simp
  have h: "(t div 3600000) mod 24 * 3600000 + t mod 3600000 = t mod 86400000"
    using mod_split [of 24 t 3600000] by simp
  from s m h show ?thesis
    unfolding HourFromTime_def MinFromTime_def SecFromTime_def msFromTime_def
      msPerHour_def msPerMinute_def msPerSecond_def msPerDay_def
    by linarith
qed

lemma setHours_plus7:
  "setHours h (map_option (\<lambda>x. x + 7) (getHours h (Some t))) (Some t) = TimeClip (t + 7 * msPerHour)"
proof -
  let ?tl = "LocalTime h t"
  have "MakeDate (Day ?tl) (MakeTime (HourFromTime ?tl + 7) (MinFromTime ?tl) (SecFromTime ?tl) (msFromTime ?tl))
        = Day ?tl * msPerDay + (?tl mod msPerDay) + 7 * msPerHour"
    using time_split [of ?tl] by (simp add: MakeDate_def MakeTime_def algebra_simps)
  also have "\<dots> = ?tl + 7 * msPerHour" by (simp add: Day_def)
  finally show ?thesis
    by (simp add: setHours_def getHours_def Let_def UTC_def LocalTime_def)
qed

lemma field_update: "field (AList.update k v ob) k' = (if k' = k then v else field ob k')"
  by (simp add: field_def update_conv')

lemma field_fold_other:
  "k \<notin> fst ` set fm \<Longrightarrow>
   field (fold (\<lambda>(mainKey, dnseKey). AList.update mainKey (f mainKey dnseKey)) fm acc) k = field acc k"
  by (induction fm arbitrary: acc) (auto simp: field_update)

lemma field_fold_entry:
  "distinct (map fst fm) \<Longrightarrow> (k, d) \<in> set fm \<Longrightarrow>
   field (fold (\<lambda>(mainKey, dnseKey). AList.update mainKey (f mainKey dnseKey)) fm acc) k = f k d"
proof (induction fm arbitrary: acc)
  case Nil
  then show ?case by simp
next
  case (Cons e fm)
  show ?case
  proof (cases "e = (k, d)")
    case True
    then have "k \<notin> fst ` set fm" using Cons.prems(1) by auto
    then show ?thesis using True by (simp add: field_fold_other field_update)
  next
    case False
    then have "(k, d) \<in> set fm" using Cons.prems(2) by simp
    moreover have "distinct (map fst fm)" using Cons.prems(1) by simp
    ultimately show ?thesis using Cons.IH by simp
  qed
qed

lemma field_mapQuote:
  "distinct (map fst fm) \<Longrightarrow> (k, d) \<in> set fm \<Longrightarrow>
   field (mapQuoteToInternalFormat h marketMap fm quote) k = mapped h marketMap quote k d"
  by (simp add: mapQuoteToInternalFormat_def field_fold_entry)

lemma field_fold_keys:
  "field (fold (\<lambda>k. AList.update k (f k)) ks acc) k' = (if k' \<in> set ks then f k' else field acc k')"
  by (induction ks arbitrary: acc) (auto simp: field_update)

lemma field_normalizeQuote:
  "field (normalizeQuote h raw) k = (if k \<in> set coerced then toNumber h (field raw k) else field raw k)"
  by (simp add: normalizeQuote_def field_fold_keys)

lemma mapped_TradingDate:
  assumes "k \<noteq> []" and "field quote k \<noteq> JNull" and "new_Date h (field quote k) = Some t"
  shows "mapped h marketMap quote ''TradingDate'' (Some k) = JDate (TimeClip (t + 7 * msPerHour))"
proof -
  have "field quote k \<noteq> JUndefined" using assms(3) by auto
  then show ?thesis using assms by (simp add: mapped_def setHours_plus7 Let_def)
qed

lemma mapped_number:
  assumes "k \<noteq> []" and "mainKey \<noteq> ''TradingDate''" and "mainKey \<noteq> ''MarketID''"
    and "field quote k \<noteq> JNull" and "field quote k \<noteq> JUndefined"
  shows "mapped h marketMap quote mainKey (Some k) =
           (case ToNumber h (field quote k) of None \<Rightarrow> field quote k | Some n \<Rightarrow> JNumber n)"
  using assms by (simp add: mapped_def Let_def)

lemma sample_mapped:
  "mapQuoteToInternalFormat node no_markets sample_fieldMap sample_quote =
     [(''StockCode'', JString ''FPT''), (''TradingDate'', JDate (Some 1704092400000)),
      (''MatchPrice'', JNumber 100), (''CeilingPrice'', JNull)]"
  by (simp add: mapQuoteToInternalFormat_def mapped_def field_def node_def decimal_def digit_def
      sample_fieldMap_def sample_quote_def no_markets_def
      iso_instant_def days_from_civil_def MakeDate_def MakeTime_def msPerDay_def msPerHour_def
      msPerMinute_def msPerSecond_def setHours_plus7 TimeClip_def Let_def)

lemma sample_symbol: "field sample_quote ''symbol'' = JString ''FPT''"
  by (simp add: field_def sample_quote_def)

lemma sample_StockCode:
  "field (mapQuoteToInternalFormat node no_markets sample_fieldMap sample_quote) ''StockCode'' =
     JString ''FPT''"
  by (simp add: sample_mapped field_def)

text \<open>
  The revision with the existence check, on a quote that equals its cached snapshot: it
  asks whether the normalised record exists, writes both records when it does not, and
  returns without writing exactly when it does.
\<close>

lemma healing_unchanged:
  assumes "truthy (field data ''symbol'')"
    and "truthy (field (mapQuoteToInternalFormat h marketMap fm data) ''StockCode'')"
    and "\<not> isChanged (cache q (field data ''symbol'')) data"
  shows "(mainExists r = Some False \<longrightarrow>
            issued (snd (saveQuoteIfChanged_healing h marketMap fm r data q)) =
              issued q @
                [ExistsMain (field (mapQuoteToInternalFormat h marketMap fm data) ''StockCode''),
                 UpdateDnse (field data ''symbol'') data,
                 UpdateMain (field (mapQuoteToInternalFormat h marketMap fm data) ''StockCode'')
                   (mapQuoteToInternalFormat h marketMap fm data)]) \<and>
         (mainExists r = Some True \<longrightarrow>
            saveQuoteIfChanged_healing h marketMap fm r data q =
              (Inr (), q\<lparr>issued := issued q @
                 [ExistsMain (field (mapQuoteToInternalFormat h marketMap fm data)
                    ''StockCode'')]\<rparr>)) \<and>
         (fst (saveQuoteIfChanged_healing h marketMap fm r data q) = Inr () \<and>
          issued (snd (saveQuoteIfChanged_healing h marketMap fm r data q)) =
            issued q @
              [ExistsMain (field (mapQuoteToInternalFormat h marketMap fm data) ''StockCode'')]
            \<longrightarrow> mainExists r = Some True)"
  using assms
  by (auto simp: saveQuoteIfChanged_healing_def upsertBoth_def Let_def split: option.splits)



text \<open>
  The two errors of \<open>saveQuoteIfChanged\<close>. A missing symbol is an error in both
  revisions. A missing StockCode is an error of its own whenever the call reaches the
  guard: always in the revision with the existence check, and in quote.service.ts for a
  quote that counts as changed. Either error leaves the cache and the record of issued
  calls as they were. A quote that equals its cached snapshot never reaches the guard of
  quote.service.ts, whatever the field table makes of it.
\<close>

lemma unchanged_quote_is_not_mapped:
  "truthy (field data ''symbol'') \<Longrightarrow> \<not> isChanged (cache q (field data ''symbol'')) data \<Longrightarrow>
   saveQuoteIfChanged h marketMap fm r data q = (Inr (), q)"
  by (simp add: saveQuoteIfChanged_def Let_def)

lemma missing_key_is_an_error:
  "(\<not> truthy (field data ''symbol'') \<longrightarrow>
      saveQuoteIfChanged h marketMap fm r data q = (Inl SymbolRequired, q) \<and>
      saveQuoteIfChanged_healing h marketMap fm r data q = (Inl SymbolRequired, q)) \<and>
   (truthy (field data ''symbol'') \<and>
    \<not> truthy (field (mapQuoteToInternalFormat h marketMap fm data) ''StockCode'') \<longrightarrow>
      saveQuoteIfChanged_healing h marketMap fm r data q = (Inl StockCodeMissing, q) \<and>
      (isChanged (cache q (field data ''symbol'')) data \<longrightarrow>
         saveQuoteIfChanged h marketMap fm r data q = (Inl StockCodeMissing, q))) \<and>
   SymbolRequired \<noteq> StockCodeMissing"
  by (simp add: saveQuoteIfChanged_def saveQuoteIfChanged_healing_def Let_def)

section \<open>The claims\<close>

subsection \<open>Change detection and persistence\<close>

text \<open>
  C1, amended. For every raw quote whose symbol and whose mapped StockCode are present
  (truthy) and for which one of the five compared fields differs from the cached snapshot,
  or no snapshot is cached, both revisions of \<open>saveQuoteIfChanged\<close> issue the two
  upserts, the raw one keyed by the symbol and the normalised one keyed by the StockCode.
  The revision that maintains the cache then sets the snapshot of that symbol to the quote
  just processed when both upserts resolve; when one of them is rejected the call fails
  and the cache is as it was.
\<close>

theorem changed_quote_is_upserted:
  assumes "truthy (field data ''symbol'')"
    and "truthy (field (mapQuoteToInternalFormat h marketMap fm data) ''StockCode'')"
    and "isChanged (cache q (field data ''symbol'')) data"
  shows "issued (snd (saveQuoteIfChanged h marketMap fm r data q)) =
           issued q @ [UpdateDnse (field data ''symbol'') data,
                       UpdateMain (field (mapQuoteToInternalFormat h marketMap fm data) ''StockCode'')
                         (mapQuoteToInternalFormat h marketMap fm data)] \<and>
         issued (snd (saveQuoteIfChanged_healing h marketMap fm r data q)) =
           issued q @ [UpdateDnse (field data ''symbol'') data,
                       UpdateMain (field (mapQuoteToInternalFormat h marketMap fm data) ''StockCode'')
                         (mapQuoteToInternalFormat h marketMap fm data)] \<and>
         (dnseUpdated r \<and> mainUpdated r \<longrightarrow>
            fst (saveQuoteIfChanged_healing h marketMap fm r data q) = Inr () \<and>
            cache (snd (saveQuoteIfChanged_healing h marketMap fm r data q)) =
              (cache q)(field data ''symbol'' \<mapsto> data)) \<and>
         (\<not> (dnseUpdated r \<and> mainUpdated r) \<longrightarrow>
            fst (saveQuoteIfChanged_healing h marketMap fm r data q) = Inl Rejected \<and>
            cache (snd (saveQuoteIfChanged_healing h marketMap fm r data q)) = cache q)"
  using assms
  by (simp add: saveQuoteIfChanged_def saveQuoteIfChanged_healing_def upsertBoth_def Let_def)

theorem changed_quote_is_upserted_witness:
  "issued (snd (saveQuoteIfChanged node no_markets sample_fieldMap all_resolve sample_quote
     no_quotes)) =
     [UpdateDnse (JString ''FPT'') sample_quote,
      UpdateMain (JString ''FPT'')
        [(''StockCode'', JString ''FPT''), (''TradingDate'', JDate (Some 1704092400000)),
         (''MatchPrice'', JNumber 100), (''CeilingPrice'', JNull)]] \<and>
   cache (snd (saveQuoteIfChanged_healing node no_markets sample_fieldMap all_resolve sample_quote
     no_quotes)) (JString ''FPT'') = Some sample_quote"
proof -
  have 1: "truthy (field sample_quote ''symbol'')"
    by (simp add: sample_symbol)
  have 2: "truthy (field (mapQuoteToInternalFormat node no_markets sample_fieldMap sample_quote)
             ''StockCode'')"
    by (simp add: sample_StockCode)
  have 3: "isChanged (cache no_quotes (field sample_quote ''symbol'')) sample_quote"
    by (simp add: isChanged_def no_quotes_def)
  note t = changed_quote_is_upserted [OF 1 2 3, of all_resolve]
  from t show ?thesis
    unfolding sample_symbol sample_StockCode
    by (simp add: sample_mapped no_quotes_def all_resolve_def)
qed

text \<open>
  As first stated the claim promises the cache update whenever the upserts have been
  issued. With the normalised upsert rejected, the awaited \<open>Promise.all\<close> throws before
  \<open>quoteCacheService.set\<close> is reached: the call fails and the cache still has no
  snapshot for the symbol.
\<close>

theorem changed_quote_counterexample:
  "fst (saveQuoteIfChanged_healing node no_markets sample_fieldMap
          (all_resolve\<lparr>mainUpdated := False\<rparr>) sample_quote no_quotes) = Inl Rejected \<and>
   cache (snd (saveQuoteIfChanged_healing node no_markets sample_fieldMap
          (all_resolve\<lparr>mainUpdated := False\<rparr>) sample_quote no_quotes)) (JString ''FPT'') = None"
  by (simp add: saveQuoteIfChanged_healing_def sample_symbol sample_StockCode upsertBoth_def
      isChanged_def no_quotes_def all_resolve_def Let_def)

text \<open>
  C2. A raw quote whose five compared fields equal the cached snapshot, at a moment when
  the normalised collection has no record for its StockCode. The method of
  quote.service.ts returns at once: it asks the collection nothing and writes nothing.
  The revision with the existence check, on the same input, issues the check and then
  both upserts (\<open>healing_unchanged\<close> above is its general behaviour).
\<close>

theorem unchanged_quote_is_not_healed:
  "saveQuoteIfChanged node no_markets sample_fieldMap all_resolve sample_quote (seen sample_quote)
     = (Inr (), seen sample_quote) \<and>
   mainExists all_resolve = Some False \<and>
   issued (snd (saveQuoteIfChanged_healing node no_markets sample_fieldMap all_resolve sample_quote
     (seen sample_quote))) =
     [ExistsMain (JString ''FPT''), UpdateDnse (JString ''FPT'') sample_quote,
      UpdateMain (JString ''FPT'')
        (mapQuoteToInternalFormat node no_markets sample_fieldMap sample_quote)]"
  by (simp add: saveQuoteIfChanged_def saveQuoteIfChanged_healing_def isChanged_def seen_def
      all_resolve_def upsertBoth_def sample_symbol sample_StockCode Let_def)


subsection \<open>Normalisation\<close>

text \<open>
  C8, amended. When the numeric coercion of a raw value fails, \<open>normalizeQuote\<close> leaves
  \<open>undefined\<close> in each of its twelve coerced fields, and \<open>mapQuoteToInternalFormat\<close>
  keeps the value as it arrived in the produced record (the text itself, for a field
  that came as non-numeric text); neither writes zero.
\<close>

theorem coercion_failure_is_not_zero:
  assumes "ToNumber h (field quote k) = None"
  shows "(k \<in> set coerced \<longrightarrow> field (normalizeQuote h quote) k = JUndefined) \<and>
         (distinct (map fst fm) \<and> (mainKey, Some k) \<in> set fm \<and> k \<noteq> [] \<and>
          mainKey \<noteq> ''TradingDate'' \<and> mainKey \<noteq> ''MarketID'' \<and>
          field quote k \<noteq> JUndefined \<longrightarrow>
            field (mapQuoteToInternalFormat h marketMap fm quote) mainKey = field quote k \<and>
            field quote k \<noteq> JNumber 0 \<and> field quote k \<noteq> JNull)"
proof -
  have n: "field quote k \<noteq> JNull" and z: "field quote k \<noteq> JNumber 0"
    using assms by auto
  have "k \<in> set coerced \<longrightarrow> field (normalizeQuote h quote) k = JUndefined"
    using assms by (simp add: field_normalizeQuote toNumber_def)
  moreover have "distinct (map fst fm) \<and> (mainKey, Some k) \<in> set fm \<and> k \<noteq> [] \<and>
          mainKey \<noteq> ''TradingDate'' \<and> mainKey \<noteq> ''MarketID'' \<and>
          field quote k \<noteq> JUndefined \<longrightarrow>
            field (mapQuoteToInternalFormat h marketMap fm quote) mainKey = field quote k"
    using assms n by (auto simp: field_mapQuote mapped_number)
  ultimately show ?thesis using n z by blast
qed

theorem coercion_failure_is_not_zero_witness:
  "ToNumber node (JString ''abc'') = None \<and>
   field (normalizeQuote node garbled_quote) ''matchPrice'' = JUndefined \<and>
   field (mapQuoteToInternalFormat node no_markets sample_fieldMap garbled_quote) ''MatchPrice''
     = JString ''abc''"
proof -
  have f: "field garbled_quote ''matchPrice'' = JString ''abc''"
    by (simp add: field_def garbled_quote_def)
  have n: "ToNumber node (JString ''abc'') = None"
    by (simp add: node_def decimal_def digit_def)
  have a: "ToNumber node (field garbled_quote ''matchPrice'') = None"
    unfolding f by (rule n)
  have c: "''matchPrice'' \<in> set coerced"
    by (simp add: coerced_def)
  have d: "distinct (map fst sample_fieldMap)"
    "(''MatchPrice'', Some ''matchPrice'') \<in> set sample_fieldMap"
    by (simp_all add: sample_fieldMap_def)
  from coercion_failure_is_not_zero [OF a, of sample_fieldMap "''MatchPrice''" no_markets] c d f n
  show ?thesis by simp
qed

text \<open>
  As first stated the claim has the produced record hold an absent value. The normalised
  record built by \<open>mapQuoteToInternalFormat\<close> holds the text that arrived.
\<close>

theorem coercion_failure_counterexample:
  "field garbled_quote ''matchPrice'' = JString ''abc'' \<and>
   field (mapQuoteToInternalFormat node no_markets sample_fieldMap garbled_quote) ''MatchPrice''
     \<noteq> JNull \<and>
   field (mapQuoteToInternalFormat node no_markets sample_fieldMap garbled_quote) ''MatchPrice''
     \<noteq> JUndefined"
  by (simp add: mapQuoteToInternalFormat_def mapped_def sample_fieldMap_def field_def node_def
      garbled_quote_def decimal_def digit_def Let_def)

text \<open>
  C9, amended. For every raw quote whose trading-date field is present and holds a value
  that the \<open>Date\<close> constructor reads as an instant \<open>t\<close>, with \<open>t\<close> plus seven hours
  still inside the range of \<open>Date\<close>, \<open>mapQuoteToInternalFormat\<close> produces the date
  exactly seven hours after \<open>t\<close>, on a host whose local time is at a fixed offset from
  UTC; 2024-01-01T00:00:00Z yields 2024-01-01T07:00:00Z.
\<close>

theorem trading_date_is_shifted_seven_hours:
  assumes "distinct (map fst fm)" and "(''TradingDate'', Some k) \<in> set fm" and "k \<noteq> []"
    and "field quote k \<noteq> JNull" and "new_Date h (field quote k) = Some t"
    and "\<bar>t + 7 * msPerHour\<bar> \<le> 8640000000000000"
  shows "field (mapQuoteToInternalFormat h marketMap fm quote) ''TradingDate'' =
           JDate (Some (t + 7 * msPerHour))"
  using assms by (simp add: field_mapQuote mapped_TradingDate TimeClip_def)

theorem trading_date_is_shifted_seven_hours_witness:
  "iso_instant ''2024-01-01T00:00:00Z'' = Some 1704067200000 \<and>
   iso_instant ''2024-01-01T07:00:00Z'' = Some 1704092400000 \<and>
   field sample_quote ''tradingDate'' = JString ''2024-01-01T00:00:00Z'' \<and>
   field (mapQuoteToInternalFormat node no_markets sample_fieldMap sample_quote) ''TradingDate'' =
     JDate (iso_instant ''2024-01-01T07:00:00Z'')"
proof -
  have i: "iso_instant ''2024-01-01T00:00:00Z'' = Some 1704067200000"
    by (simp add: iso_instant_def digit_def days_from_civil_def MakeDate_def MakeTime_def
        msPerDay_def msPerHour_def msPerMinute_def msPerSecond_def)
  have j: "iso_instant ''2024-01-01T07:00:00Z'' = Some 1704092400000"
    by (simp add: iso_instant_def digit_def days_from_civil_def MakeDate_def MakeTime_def
        msPerDay_def msPerHour_def msPerMinute_def msPerSecond_def)
  have f: "field sample_quote ''tradingDate'' = JString ''2024-01-01T00:00:00Z''"
    by (simp add: field_def sample_quote_def)
  have 1: "distinct (map fst sample_fieldMap)"
    and 2: "(''TradingDate'', Some ''tradingDate'') \<in> set sample_fieldMap"
    by (simp_all add: sample_fieldMap_def)
  have 3: "''tradingDate'' \<noteq> []"
    by simp
  have 4: "field sample_quote ''tradingDate'' \<noteq> JNull"
    by (simp add: f)
  have 5: "new_Date node (field sample_quote ''tradingDate'') = Some 1704067200000"
    by (simp add: f node_def i TimeClip_def)
  have 6: "\<bar>1704067200000 + 7 * msPerHour\<bar> \<le> (8640000000000000::int)"
    by (simp add: msPerHour_def)
  from trading_date_is_shifted_seven_hours [OF 1 2 3 4 5 6, of no_markets] i j f
  show ?thesis by (simp add: msPerHour_def)
qed

text \<open>
  As first stated the claim covers every quote whose trading-date field is present. A
  field that is present but is no date gives an invalid \<open>Date\<close>, which is not seven
  hours after anything.
\<close>

theorem trading_date_counterexample:
  "field garbled_quote ''tradingDate'' = JString ''abc'' \<and>
   field (mapQuoteToInternalFormat node no_markets sample_fieldMap garbled_quote) ''TradingDate''
     = JDate None"
  by (simp add: mapQuoteToInternalFormat_def mapped_def sample_fieldMap_def field_def node_def
      garbled_quote_def iso_instant_def getHours_def setHours_def Let_def)

subsection \<open>Reconnecting with backoff\<close>

text \<open>
  C3. The reconnect delay starts at 5000 ms. Each time a reconnect is scheduled it becomes
  the smaller of its double and the maximum of 15 minutes, so a failed attempt whose
  reconnect is scheduled doubles it until the cap is reached; after \<open>n\<close> such attempts in
  a row from the base it is \<open>min (5000 * 2 ^ n) 900000\<close>. An attempt that opens the
  session sets it back to 5000 ms. Whatever happens to a manager, the delay stays between
  the base and the maximum.
\<close>

theorem backoff_doubles_caps_resets:
  "reconnectDelay initial = 5000 \<and>
   reconnectDelay (scheduleReconnect fl True rnd s) = min (reconnectDelay s * 2) reconnectMax \<and>
   (\<not> isConnecting s \<and> verdict_of a = Failed \<and> tradingAtRetry a \<longrightarrow>
      reconnectDelay (connect fl a s) = min (reconnectDelay s * 2) reconnectMax) \<and>
   (\<not> isConnecting s \<and> verdict_of b = Opened \<longrightarrow> reconnectDelay (connect fl b s) = 5000) \<and>
   (\<not> isConnecting s \<and> reconnectDelay s = 5000 \<and>
    (\<forall>a \<in> set as. verdict_of a = Failed \<and> tradingAtRetry a) \<longrightarrow>
      reconnectDelay (attempts fl as s) = min (5000 * 2 ^ length as) reconnectMax) \<and>
   5000 \<le> reconnectDelay (run fl es initial) \<and> reconnectDelay (run fl es initial) \<le> reconnectMax"
proof -
  have "reconnectDelay initial = 5000"
    by (simp add: initial_def)
  moreover have "5000 \<le> reconnectDelay (run fl es initial) \<and>
      reconnectDelay (run fl es initial) \<le> reconnectMax"
    by (rule run_delay_bounds) (simp_all add: initial_def reconnectMax_def)
  moreover have "\<not> isConnecting s \<and> reconnectDelay s = 5000 \<and>
    (\<forall>a \<in> set as. verdict_of a = Failed \<and> tradingAtRetry a) \<longrightarrow>
      reconnectDelay (attempts fl as s) = min (5000 * 2 ^ length as) reconnectMax"
    using attempts_failed_delay [where s = s and as = as and fl = fl] by (auto simp: reconnectMax_def)
  ultimately show ?thesis
    by (simp add: scheduleReconnect_delay connect_delay)
qed

theorem backoff_doubles_caps_resets_witness:
  "reconnectDelay (scheduleReconnect round_example True (1 / 2) initial) = 10000 \<and>
   reconnectDelay (connect round_example token_rejected initial) = 10000 \<and>
   reconnectDelay (connect round_example session_opens (connect round_example token_rejected initial)) = 5000 \<and>
   reconnectDelay (attempts round_example (replicate 7 token_rejected) initial) = 640000 \<and>
   reconnectDelay (attempts round_example (replicate 8 token_rejected) initial) = 900000 \<and>
   reconnectDelay (attempts round_example (replicate 9 token_rejected) initial) = 900000"
proof -
  have v: "verdict_of token_rejected = Failed" "tradingAtRetry token_rejected"
    "verdict_of session_opens = Opened"
    by (simp_all add: verdict_of_def token_rejected_def session_opens_def)
  have i: "\<not> isConnecting initial" "reconnectDelay initial = 5000"
    by (simp_all add: initial_def)
  have c: "\<not> isConnecting (connect round_example token_rejected initial)"
    using i by (simp add: connect_not_connecting)
  note t = backoff_doubles_caps_resets
  have 1: "reconnectDelay (scheduleReconnect round_example True (1 / 2) initial) = 10000"
    using t [where rnd = "1 / 2" and s = initial and fl = round_example] i by (simp add: reconnectMax_def)
  have 2: "reconnectDelay (connect round_example token_rejected initial) = 10000"
    using t [where s = initial and a = token_rejected and fl = round_example] i v by (simp add: reconnectMax_def)
  have 3: "reconnectDelay (connect round_example session_opens (connect round_example token_rejected initial)) = 5000"
    using t [where s = "connect round_example token_rejected initial" and b = session_opens
        and fl = round_example] c v by simp
  have 4: "reconnectDelay (attempts round_example (replicate 7 token_rejected) initial) = 640000"
    using t [where s = initial and as = "replicate 7 token_rejected" and fl = round_example] i v
    by (simp add: reconnectMax_def)
  have 5: "reconnectDelay (attempts round_example (replicate 8 token_rejected) initial) = 900000"
    using t [where s = initial and as = "replicate 8 token_rejected" and fl = round_example] i v
    by (simp add: reconnectMax_def)
  have 6: "reconnectDelay (attempts round_example (replicate 9 token_rejected) initial) = 900000"
    using t [where s = initial and as = "replicate 9 token_rejected" and fl = round_example] i v
    by (simp add: reconnectMax_def)
  from 1 2 3 4 5 6 show ?thesis by simp
qed

text \<open>
  C6, amended. Let \<open>r\<close> be a double in [0,1) drawn from the random source and let the
  backoff delay \<open>d\<close> be an integer with \<open>2 \<le> d < 2 ^ 51\<close> (by C3 every delay a manager
  holds is between 5000 and 900000). In \<open>MqttConnectionManager.scheduleReconnect\<close>
  the jitter is the double product of \<open>r\<close> and \<open>d / 2\<close>, that is the double nearest to
  \<open>r * (d / 2)\<close>, and the timeout is armed with the double sum of \<open>d\<close> and the jitter,
  the double nearest to \<open>d + jitter\<close>, which lies in \<open>[d, 3 * d / 2]\<close>. In
  \<open>MqttService.scheduleReconnect\<close> the jitter is \<open>Math.floor\<close> of that double
  product and the timeout is armed with exactly \<open>d + jitter\<close>. In both the jitter lies
  in \<open>[0, d / 2)\<close>.
\<close>

theorem jitter_within_half_delay:
  assumes "rnd \<in> binary64" and "0 \<le> rnd" and "rnd < 1"
  shows "(2 \<le> reconnectDelay s \<and> reconnectDelay s < 2 ^ 51 \<and>
          rounds fl (real_of_int (reconnectDelay s) / 2) \<and>
          rounds fl (rnd * half fl s) \<and>
          rounds fl (real_of_int (reconnectDelay s) + jitter fl rnd s) \<longrightarrow>
            nearest (rnd * (real_of_int (reconnectDelay s) / 2)) (jitter fl rnd s) \<and>
            0 \<le> jitter fl rnd s \<and> jitter fl rnd s < real_of_int (reconnectDelay s) / 2 \<and>
            nearest (real_of_int (reconnectDelay s) + jitter fl rnd s) (delay fl rnd s) \<and>
            real_of_int (reconnectDelay s) \<le> delay fl rnd s \<and>
            delay fl rnd s \<le> 3 * real_of_int (reconnectDelay s) / 2 \<and>
            last (timers (scheduleReconnect fl True rnd s)) = (fresh s, delay fl rnd s)) \<and>
         (2 \<le> mqttService.reconnectDelay t \<and> mqttService.reconnectDelay t < 2 ^ 51 \<and>
          rounds fl (real_of_int (mqttService.reconnectDelay t) / 2) \<and>
          rounds fl (rnd * service_half fl t) \<longrightarrow>
            nearest (rnd * (real_of_int (mqttService.reconnectDelay t) / 2))
              (fl (rnd * (real_of_int (mqttService.reconnectDelay t) / 2))) \<and>
            service_jitter fl rnd t =
              \<lfloor>fl (rnd * (real_of_int (mqttService.reconnectDelay t) / 2))\<rfloor> \<and>
            0 \<le> service_jitter fl rnd t \<and>
            real_of_int (service_jitter fl rnd t) < real_of_int (mqttService.reconnectDelay t) / 2 \<and>
            service_delay fl rnd t =
              real_of_int (mqttService.reconnectDelay t) + real_of_int (service_jitter fl rnd t) \<and>
            last (mqttService.timers (service_scheduleReconnect fl rnd t)) =
              (mqttService.fresh t, service_delay fl rnd t))"
proof (intro conjI impI)
  let ?D = "reconnectDelay s"
  assume h: "2 \<le> ?D \<and> ?D < 2 ^ 51 \<and> rounds fl (real_of_int ?D / 2) \<and>
    rounds fl (rnd * half fl s) \<and> rounds fl (real_of_int ?D + jitter fl rnd s)"
  then have D: "2 \<le> ?D" "?D < 2 ^ 53" "?D < 2 ^ 51" "\<bar>?D\<bar> < 2 ^ 53"
    by simp_all
  have hf: "half fl s = real_of_int ?D / 2"
    using D(4) h by (simp add: half_exact)
  have nj: "nearest (rnd * (real_of_int ?D / 2)) (jitter fl rnd s)"
    using h by (simp add: jitter_def rounds_def hf)
  then show "nearest (rnd * (real_of_int ?D / 2)) (jitter fl rnd s)" .
  have jb: "0 \<le> jitter fl rnd s \<and> jitter fl rnd s < real_of_int ?D / 2"
    using assms D(1) D(2) nj by (rule product_below_half)
  then show "0 \<le> jitter fl rnd s" and "jitter fl rnd s < real_of_int ?D / 2"
    by simp_all
  have nd: "nearest (real_of_int ?D + jitter fl rnd s) (delay fl rnd s)"
    using h by (simp add: delay_def rounds_def)
  then show "nearest (real_of_int ?D + jitter fl rnd s) (delay fl rnd s)" .
  have "real_of_int ?D \<le> delay fl rnd s \<and> delay fl rnd s \<le> 3 * real_of_int ?D / 2"
    using D(1) D(3) _ _ nd by (rule delay_bounds) (use jb in simp_all)
  then show "real_of_int ?D \<le> delay fl rnd s" and "delay fl rnd s \<le> 3 * real_of_int ?D / 2"
    by simp_all
  show "last (timers (scheduleReconnect fl True rnd s)) = (fresh s, delay fl rnd s)"
    by (simp add: scheduleReconnect_def Let_def)
next
  let ?D = "mqttService.reconnectDelay t"
  assume h: "2 \<le> ?D \<and> ?D < 2 ^ 51 \<and> rounds fl (real_of_int ?D / 2) \<and>
    rounds fl (rnd * service_half fl t)"
  then have D: "2 \<le> ?D" "?D < 2 ^ 53" "\<bar>?D\<bar> < 2 ^ 53"
    by simp_all
  have hf: "service_half fl t = real_of_int ?D / 2"
    using D(3) h by (simp add: service_half_exact)
  have nj: "nearest (rnd * (real_of_int ?D / 2)) (fl (rnd * (real_of_int ?D / 2)))"
    using h by (simp add: rounds_def hf)
  then show "nearest (rnd * (real_of_int ?D / 2)) (fl (rnd * (real_of_int ?D / 2)))" .
  show sj: "service_jitter fl rnd t = \<lfloor>fl (rnd * (real_of_int ?D / 2))\<rfloor>"
    by (simp add: service_jitter_def hf)
  have jb: "0 \<le> fl (rnd * (real_of_int ?D / 2)) \<and>
      fl (rnd * (real_of_int ?D / 2)) < real_of_int ?D / 2"
    using assms D(1) D(2) nj by (rule product_below_half)
  then show "0 \<le> service_jitter fl rnd t"
    unfolding sj by simp
  have "real_of_int \<lfloor>fl (rnd * (real_of_int ?D / 2))\<rfloor> \<le> fl (rnd * (real_of_int ?D / 2))"
    by (rule of_int_floor_le)
  then show "real_of_int (service_jitter fl rnd t) < real_of_int ?D / 2"
    unfolding sj using jb by linarith
  show "service_delay fl rnd t = real_of_int ?D + real_of_int (service_jitter fl rnd t)"
    by (simp add: service_delay_def)
  show "last (mqttService.timers (service_scheduleReconnect fl rnd t)) =
      (mqttService.fresh t, service_delay fl rnd t)"
    by (simp add: service_scheduleReconnect_def Let_def)
qed

theorem jitter_within_half_delay_witness:
  "seven_tenths \<in> binary64 \<and> 0 \<le> seven_tenths \<and> seven_tenths < 1 \<and>
   seven_tenths * 2500 = 1750 - 1000 / 2 ^ 53 \<and>
   rounds round_example (seven_tenths * 2500) \<and>
   jitter round_example seven_tenths initial = 1750 \<and>
   jitter round_example seven_tenths initial < 2500 \<and>
   delay round_example seven_tenths initial = 6750 \<and>
   timers (scheduleReconnect round_example True seven_tenths initial) = [(0, 6750)] \<and>
   service_jitter round_example seven_tenths (service_initial 0) = 1750 \<and>
   real_of_int (service_jitter round_example seven_tenths (service_initial 0)) < 2500 \<and>
   service_delay round_example seven_tenths (service_initial 0) = 6750"
proof -
  have r: "seven_tenths \<in> binary64" "0 \<le> seven_tenths" "seven_tenths < 1"
    using seven_tenths_binary64 by (simp_all add: seven_tenths_def)
  have x: "seven_tenths * 2500 = 1750 - 1000 / 2 ^ 53"
    by (simp add: seven_tenths_def)
  have d: "reconnectDelay initial = 5000" "mqttService.reconnectDelay (service_initial 0) = 5000"
    by (simp_all add: initial_def service_initial_def)
  have b: "(2500::real) \<in> binary64" "(6750::real) \<in> binary64"
    using int_binary64 [of 2500] int_binary64 [of 6750] by simp_all
  have n: "(2500::real) \<noteq> seven_tenths * 2500" "(6750::real) \<noteq> seven_tenths * 2500"
    by (simp_all add: seven_tenths_def)
  have hm: "half round_example initial = 2500"
    using n by (simp add: half_def d round_example_id)
  have hs: "service_half round_example (service_initial 0) = 2500"
    using n by (simp add: service_half_def d round_example_id)
  have j: "jitter round_example seven_tenths initial = 1750"
    by (simp add: jitter_def hm round_example_def)
  have sj: "service_jitter round_example seven_tenths (service_initial 0) = 1750"
    by (simp add: service_jitter_def hs round_example_def)
  have dl: "delay round_example seven_tenths initial = 6750"
    using n by (simp add: delay_def j d round_example_id)
  have sd: "service_delay round_example seven_tenths (service_initial 0) = 6750"
    by (simp add: service_delay_def sj d)
  have tm: "timers (scheduleReconnect round_example True seven_tenths initial) = [(0, 6750)]"
    by (simp add: scheduleReconnect_def dl Let_def) (simp add: initial_def)
  have 1: "rounds round_example (real_of_int (reconnectDelay initial) / 2)"
    using b(1) by (simp add: d round_example_double)
  have 2: "rounds round_example (seven_tenths * half round_example initial)"
    by (simp add: hm round_example_product)
  have 3: "rounds round_example (real_of_int (reconnectDelay initial) + jitter round_example
      seven_tenths initial)"
    using b(2) by (simp add: d j round_example_double)
  have 4: "rounds round_example (real_of_int (mqttService.reconnectDelay (service_initial 0)) / 2)"
    using b(1) by (simp add: d round_example_double)
  have 5: "rounds round_example (seven_tenths * service_half round_example (service_initial 0))"
    by (simp add: hs round_example_product)
  note t = jitter_within_half_delay
    [OF r, where s = initial and fl = round_example and t = "service_initial 0"]
  have m: "2 \<le> reconnectDelay initial \<and> reconnectDelay initial < 2 ^ 51 \<and>
      rounds round_example (real_of_int (reconnectDelay initial) / 2) \<and>
      rounds round_example (seven_tenths * half round_example initial) \<and>
      rounds round_example (real_of_int (reconnectDelay initial) +
        jitter round_example seven_tenths initial)"
    using 1 2 3 by (simp add: d)
  have v: "2 \<le> mqttService.reconnectDelay (service_initial 0) \<and>
      mqttService.reconnectDelay (service_initial 0) < 2 ^ 51 \<and>
      rounds round_example (real_of_int (mqttService.reconnectDelay (service_initial 0)) / 2) \<and>
      rounds round_example (seven_tenths * service_half round_example (service_initial 0))"
    using 4 5 by (simp add: d)
  have "jitter round_example seven_tenths initial < real_of_int (reconnectDelay initial) / 2"
    using t [THEN conjunct1, THEN mp, OF m] by blast
  then have jm: "jitter round_example seven_tenths initial < 2500"
    by (simp add: d)
  have "real_of_int (service_jitter round_example seven_tenths (service_initial 0))
      < real_of_int (mqttService.reconnectDelay (service_initial 0)) / 2"
    using t [THEN conjunct2, THEN mp, OF v] by blast
  then have js: "real_of_int (service_jitter round_example seven_tenths (service_initial 0)) < 2500"
    by (simp add: d)
  from r x round_example_product j jm dl tm sj js sd show ?thesis
    by (intro conjI)
qed

text \<open>
  As first stated the claim has the jitter equal to \<open>r\<close> times half the delay in
  \<open>MqttService.scheduleReconnect\<close> too. There the product goes through \<open>Math.floor\<close>:
  with \<open>r = 1/8192\<close> and the base delay the product is the double 625/2048 and the
  jitter is 0.
\<close>

theorem jitter_within_half_delay_counterexample:
  "(1 / 8192 :: real) \<in> binary64 \<and> (1 / 8192) * (2500 :: real) = 625 / 2048 \<and>
   (625 / 2048 :: real) \<in> binary64 \<and>
   rounds round_example 2500 \<and> rounds round_example (625 / 2048) \<and>
   service_jitter round_example (1 / 8192) (service_initial 0) = 0 \<and>
   real_of_int (service_jitter round_example (1 / 8192) (service_initial 0)) \<noteq>
     (1 / 8192) * (real_of_int (mqttService.reconnectDelay (service_initial 0)) / 2)"
proof -
  have a: "(1 / 8192 :: real) \<in> binary64"
    by (rule binary64I [of 1 0 13]) simp_all
  have b: "(625 / 2048 :: real) \<in> binary64"
    by (rule binary64I [of 625 0 11]) simp_all
  have c: "(2500 :: real) \<in> binary64"
    using int_binary64 [of 2500] by simp
  have d: "mqttService.reconnectDelay (service_initial 0) = 5000"
    by (simp add: service_initial_def)
  have hs: "service_half round_example (service_initial 0) = 2500"
    by (simp add: service_half_def d round_example_def seven_tenths_def)
  have sj: "service_jitter round_example (1 / 8192) (service_initial 0) = 0"
    by (simp add: service_jitter_def hs round_example_def seven_tenths_def)
  show ?thesis
    using a b c sj by (simp add: d round_example_double)
qed

subsection \<open>The guards of connect\<close>

text \<open>
  C4. When \<open>connect()\<close> is called while the Connecting guard is set and the trading-window
  predicate holds, the call returns before its first await and changes nothing: the
  client, the timer, the delay and the flag are as before, no session is opened, no
  timeout is armed and no alert is sent. (The guard is set in every state in which an
  earlier call is suspended: \<open>connect_enter_sets_guard\<close>.)
\<close>

theorem connect_while_connecting_is_noop:
  "isConnecting s \<Longrightarrow> tradingAtEntry a \<Longrightarrow>
   connect_enter (tradingAtEntry a) s = Returned s \<and> connect fl a s = s"
  by (simp add: connect_def connect_enter_def)

theorem connect_while_connecting_is_noop_witness:
  "connect_enter True initial = Awaiting (initial\<lparr>isConnecting := True\<rparr>) \<and>
   isConnecting (initial\<lparr>isConnecting := True\<rparr>) \<and> tradingAtEntry session_opens \<and>
   connect round_example session_opens (initial\<lparr>isConnecting := True\<rparr>) = initial\<lparr>isConnecting := True\<rparr>"
  using connect_while_connecting_is_noop
    [where s = "initial\<lparr>isConnecting := True\<rparr>" and a = session_opens and fl = round_example]
  by (simp add: connect_enter_def initial_def session_opens_def)

text \<open>
  C5. When the trading-window predicate is false at the top of \<open>connect()\<close>, the call
  only hands the alert service its notice: it opens no session and arms no timer. When
  the predicate is false in \<open>scheduleReconnect()\<close>, the call changes nothing. Hence
  over any sequence of events during which the predicate reads false, no timeout is
  armed and no session is opened.
\<close>

theorem nothing_armed_or_opened_outside_trading:
  "(\<not> tradingAtEntry a \<longrightarrow>
      connect fl a s = alert_send ''MQTT Connect Skipped'' s \<and>
      sessions (connect fl a s) = sessions s \<and> client (connect fl a s) = client s \<and>
      timers (connect fl a s) = timers s \<and> reconnectTimer (connect fl a s) = reconnectTimer s) \<and>
   scheduleReconnect fl False rnd s = s \<and>
   ((\<forall>e \<in> set es. outside e) \<longrightarrow>
      set (timers (run fl es s)) \<subseteq> set (timers s) \<and>
      set (sessions (run fl es s)) \<subseteq> set (sessions s))"
  using run_outside [where es = es and s = s and fl = fl]
  by (simp add: connect_outside alert_send_def scheduleReconnect_def)

theorem nothing_armed_or_opened_outside_trading_witness:
  "\<not> tradingAtEntry after_hours \<and>
   connect round_example after_hours initial = initial\<lparr>alerts := [''MQTT Connect Skipped'']\<rparr> \<and>
   outside (Connect after_hours) \<and> outside (TransportLost False (1 / 2)) \<and> outside End \<and>
   timers (run round_example [Connect after_hours, TransportLost False (1 / 2), End] initial) = [] \<and>
   sessions (run round_example [Connect after_hours, TransportLost False (1 / 2), End] initial) = []"
proof -
  let ?es = "[Connect after_hours, TransportLost False (1 / 2), End]"
  have h: "\<not> tradingAtEntry after_hours"
    by (simp add: after_hours_def)
  have o: "outside (Connect after_hours)" "outside (TransportLost False (1 / 2))" "outside End"
    by (simp_all add: outside_def after_hours_def)
  then have all: "\<forall>e \<in> set ?es. outside e"
    by simp
  have i: "timers initial = []" "sessions initial = []" "alerts initial = []"
    by (simp_all add: initial_def)
  note t = nothing_armed_or_opened_outside_trading
    [where a = after_hours and s = initial and rnd = "1 / 2" and es = ?es and fl = round_example]
  have c: "connect round_example after_hours initial = alert_send ''MQTT Connect Skipped'' initial"
    using t h by blast
  have "set (timers (run round_example ?es initial)) \<subseteq> set (timers initial)"
    and "set (sessions (run round_example ?es initial)) \<subseteq> set (sessions initial)"
    using t all by blast+
  then have "timers (run round_example ?es initial) = []" and "sessions (run round_example ?es initial) = []"
    using i by simp_all
  then show ?thesis using h o c i by (simp add: alert_send_def)
qed

subsection \<open>Teardown\<close>

text \<open>
  C10. From every state, \<open>end()\<close> leaves the client handle null and the backoff delay at
  5000 ms, and the timeout the timer field refers to is no longer pending; in every state
  a manager reaches from its initial one that is the only timeout there can be, so none
  is pending. Calling \<open>end()\<close> twice gives the same state as calling it once.
\<close>

theorem end_resets_and_is_idempotent:
  "client (end_session s) = None \<and>
   reconnectDelay (end_session s) = 5000 \<and>
   (\<forall>t. reconnectTimer (end_session s) = Some t \<longrightarrow> t \<notin> fst ` set (timers (end_session s))) \<and>
   (owned s \<longrightarrow> timers (end_session s) = []) \<and>
   timers (end_session (run fl es initial)) = [] \<and>
   end_session (end_session s) = end_session s"
proof -
  have "owned (run fl es initial)"
    using owned_initial by (rule owned_run)
  then have "timers (end_session (run fl es initial)) = []"
    by (rule end_session_timers)
  moreover have "client (end_session s) = None \<and> reconnectDelay (end_session s) = 5000"
    by (simp add: end_session_def Let_def)
  ultimately show ?thesis
    using end_session_timer_cancelled [of s] end_session_timers [of s] end_session_idem [of s]
    by blast
qed

theorem end_resets_and_is_idempotent_witness:
  "timers (run round_example [Connect token_rejected, Connect session_opens] initial) = [(0, 6250)] \<and>
   client (run round_example [Connect token_rejected, Connect session_opens] initial) = Some 1 \<and>
   owned (run round_example [Connect token_rejected, Connect session_opens] initial) \<and>
   end_session (run round_example [Connect token_rejected, Connect session_opens] initial) =
     \<lparr>client = None, isConnecting = False, reconnectTimer = Some 0, reconnectDelay = 5000,
      timers = [], sessions = [], alerts = [''MQTT Connection Error''], fresh = 2\<rparr> \<and>
   end_session (end_session (run round_example [Connect token_rejected, Connect session_opens] initial)) =
     \<lparr>client = None, isConnecting = False, reconnectTimer = Some 0, reconnectDelay = 5000,
      timers = [], sessions = [], alerts = [''MQTT Connection Error''], fresh = 2\<rparr>"
proof -
  let ?s = "run round_example [Connect token_rejected, Connect session_opens] initial"
  have s: "?s = \<lparr>client = Some 1, isConnecting = False, reconnectTimer = Some 0,
      reconnectDelay = 5000, timers = [(0, 6250)], sessions = [(1, ''wss://broker'')],
      alerts = [''MQTT Connection Error''], fresh = 2\<rparr>"
    by (simp add: connect_def connect_enter_def connect_resume_def connect_failed_def
        scheduleReconnect_def alert_send_def initial_def token_rejected_def session_opens_def
        reconnectMax_def delay_def jitter_def half_def round_example_def seven_tenths_def
        Let_def)
  have e: "end_session ?s = \<lparr>client = None, isConnecting = False, reconnectTimer = Some 0,
      reconnectDelay = 5000, timers = [], sessions = [],
      alerts = [''MQTT Connection Error''], fresh = 2\<rparr>"
    unfolding s by (simp add: end_session_def clearTimeout_def Let_def)
  have o: "owned ?s"
    unfolding s by (simp add: owned_def clearTimeout_def)
  from end_resets_and_is_idempotent
    [where s = ?s and es = "[Connect token_rejected, Connect session_opens]" and fl = round_example]
  have "end_session (end_session ?s) = end_session ?s"
    by blast
  then show ?thesis using s e o by simp
qed

end
